theory Spec2Isabelle
  imports
    Complex_Main
    "HOL-Library.Word"
    "HOL-Library.Char_ord"
    "HOL-Library.List_Lexorder"
    "HOL-Library.Multiset"
begin

section \<open>The stackset controller core: data model\<close>

text \<open>
  The development embeds \<^verbatim>\<open>pkg/core/stackset.go\<close> (the StackSet-level decisions:
  \<^verbatim>\<open>NewStack\<close>, \<^verbatim>\<open>MarkExpiredStacks\<close>, the shared ingress) and the per-Stack resource
  generators (\<^verbatim>\<open>GenerateDeployment\<close>, \<^verbatim>\<open>GenerateHPA\<close>, \<^verbatim>\<open>GenerateService\<close>,
  \<^verbatim>\<open>GenerateIngress\<close>).

  Conventions of the embedding:
  \<^item> a Go \<^verbatim>\<open>map[string]string\<close> is a map \<open>string \<rightharpoonup> string\<close>; a nil map and an empty
    map are both \<open>Map.empty\<close> (Go reads them alike, and every map written below has
    been allocated before);
  \<^item> a Go slice is a list; the nil slice and the empty slice are both \<open>[]\<close>;
  \<^item> a nilable pointer is an \<open>option\<close>;
  \<^item> \<^verbatim>\<open>int32\<close> and \<^verbatim>\<open>int64\<close> are words, read with \<open>sint\<close> where the code compares
    or converts them;
  \<^item> an instant (\<^verbatim>\<open>time.Time\<close>, \<^verbatim>\<open>metav1.Time\<close>) is an integer on a common time
    line, so that \<^verbatim>\<open>Before\<close> is \<open><\<close>;
  \<^item> a \<^verbatim>\<open>float64\<close> traffic weight is only ever compared with zero and copied, so it is
    a real number or one of the three special values;
  \<^item> of the Kubernetes API types, the fields that the code reads or writes are kept.
\<close>

type_synonym labels = "string \<rightharpoonup> string"
type_synonym int32 = "32 word"
type_synonym int64 = "64 word"
type_synonym time = int

datatype float64 = Finite real | PosInf | NegInf | NaN

text \<open>The comparison \<^verbatim>\<open>w > 0\<close> on a \<^verbatim>\<open>float64\<close>: false on NaN.\<close>

fun positive :: "float64 \<Rightarrow> bool" where
  "positive (Finite r) = (0 < r)"
| "positive PosInf = True"
| "positive NegInf = False"
| "positive NaN = False"

text \<open>\<^verbatim>\<open>intstr.IntOrString\<close>: a tagged union of an \<^verbatim>\<open>int32\<close> and a string.\<close>

datatype IntOrString = IntVal int32 | StrVal string

record OwnerReference =
  ref_APIVersion :: string
  ref_Kind :: string
  ref_Name :: string
  ref_UID :: string

record ObjectMeta =
  Name :: string
  Namespace :: string
  UID :: string
  Generation :: int64
  CreationTimestamp :: time
  Labels :: labels
  Annotations :: labels
  OwnerReferences :: "OwnerReference list"

record TypeMeta =
  Kind :: string
  APIVersion :: string

record ServicePort =
  sp_Name :: string
  sp_Protocol :: string
  sp_Port :: int32
  sp_TargetPort :: IntOrString
  sp_NodePort :: int32

record ContainerPort =
  cp_Name :: string
  cp_ContainerPort :: int32
  cp_Protocol :: string

record Container =
  c_Name :: string
  c_Image :: string
  c_Ports :: "ContainerPort list"

record PodSpec =
  Containers :: "Container list"

record PodTemplateSpec =
  pt_ObjectMeta :: ObjectMeta
  pt_Spec :: PodSpec

text \<open>Metric descriptions are opaque to the functions modelled here.\<close>

typedecl MetricSpec
typedecl AutoscalerMetrics

record StackServiceSpec =
  svc_ObjectMeta :: ObjectMeta
  Ports :: "ServicePort list"

record Autoscaler =
  as_MinReplicas :: "int32 option"
  as_MaxReplicas :: int32
  as_Metrics :: "AutoscalerMetrics list"

record HorizontalPodAutoscaler =
  hpa_ObjectMeta :: ObjectMeta
  hpa_MinReplicas :: "int32 option"
  hpa_MaxReplicas :: int32
  hpa_Metrics :: "MetricSpec list"

record StackSpec =
  Replicas :: "int32 option"
  HorizontalPodAutoscalerSpec :: "HorizontalPodAutoscaler option"
  Service :: "StackServiceSpec option"
  PodTemplate :: PodTemplateSpec
  AutoscalerSpec :: "Autoscaler option"

record Stack =
  stack_ObjectMeta :: ObjectMeta
  stack_Spec :: StackSpec

record StackSetIngressSpec =
  ing_ObjectMeta :: ObjectMeta
  Hosts :: "string list"
  BackendPort :: IntOrString
  Path :: string

record StackLifecycle =
  ScaledownTTLSeconds :: "int64 option"
  Limit :: "int32 option"

record StackSpecTemplate =
  tmpl_StackSpec :: StackSpec
  Version :: string

record StackTemplate =
  st_ObjectMeta :: ObjectMeta
  st_Spec :: StackSpecTemplate

record StackSetSpec =
  Ingress :: "StackSetIngressSpec option"
  StackLifecycle :: StackLifecycle
  StackTemplate :: StackTemplate

record StackSetStatus =
  Stacks :: int32
  ReadyStacks :: int32
  StacksWithTraffic :: int32
  ObservedStackVersion :: string

record StackSet =
  ss_TypeMeta :: TypeMeta
  ss_ObjectMeta :: ObjectMeta
  ss_Spec :: StackSetSpec
  ss_Status :: StackSetStatus

text \<open>
  Modelled from the spec: the declaration of \<^verbatim>\<open>StackContainer\<close> is not among the
  sources. The fields are those the code reads (\<^verbatim>\<open>sc.deploymentReplicas\<close>,
  \<^verbatim>\<open>sc.ingressSpec\<close>, ...) and those the data model of the specification lists for the
  working-set node; \<open>scaledownTTL\<close> is the \<^verbatim>\<open>scaledownTTLSeconds\<close> the predicate
  \<^verbatim>\<open>ScaledDown\<close> compares with.
\<close>

record StackContainer =
  Stack :: Stack
  PendingRemoval :: bool
  stacksetName :: string
  ingressSpec :: "StackSetIngressSpec option"
  scaledownTTL :: int
  deploymentReplicas :: int32
  createdReplicas :: int32
  readyReplicas :: int32
  updatedReplicas :: int32
  desiredReplicas :: int32
  stackReplicas :: int32
  actualTrafficWeight :: float64
  desiredTrafficWeight :: float64
  noTrafficSince :: "time option"
  prescalingActive :: bool
  prescalingReplicas :: int32
  prescalingDesiredTrafficWeight :: float64
  prescalingLastTrafficIncrease :: "time option"

record StackSetContainer =
  StackSet :: StackSet
  StackContainers :: "StackContainer list"

text \<open>
  The generated Kubernetes objects. The \<^verbatim>\<open>Spec\<close> level of each object is flattened
  into the object (\<open>dep_Replicas\<close> is \<^verbatim>\<open>Deployment.Spec.Replicas\<close>), and
  \<open>Paths\<close> of a rule is \<^verbatim>\<open>IngressRuleValue.HTTP.Paths\<close>.
\<close>

record appsv1_Deployment =
  dep_ObjectMeta :: ObjectMeta
  dep_Replicas :: "int32 option"
  dep_MatchLabels :: labels
  dep_Template :: PodTemplateSpec

record CrossVersionObjectReference =
  ref_target_APIVersion :: string
  ref_target_Kind :: string
  ref_target_Name :: string

record autoscaling_HorizontalPodAutoscaler =
  out_ObjectMeta :: ObjectMeta
  out_TypeMeta :: TypeMeta
  ScaleTargetRef :: CrossVersionObjectReference
  MinReplicas :: "int32 option"
  MaxReplicas :: int32
  Metrics :: "MetricSpec list"

record v1_Service =
  service_ObjectMeta :: ObjectMeta
  service_Selector :: labels
  service_Type :: string
  service_Ports :: "ServicePort list"

record IngressBackend =
  ServiceName :: string
  ServicePort :: IntOrString

record HTTPIngressPath =
  path_Path :: string
  Backend :: IngressBackend

record IngressRule =
  Host :: string
  Paths :: "HTTPIngressPath list"

record extensions_Ingress =
  ingress_ObjectMeta :: ObjectMeta
  Rules :: "IngressRule list"

text \<open>
  Errors are values. \<open>errNoPaths\<close> and \<open>errNoStacks\<close> are the two error variables of
  \<^verbatim>\<open>stackset.go\<close>; \<open>errNoMatchingPort\<close> is the \<^verbatim>\<open>fmt.Errorf\<close> of \<^verbatim>\<open>getServicePorts\<close>,
  carrying the printed backend port; \<open>errExternal\<close> wraps the message of an error that
  a function outside the sources returned.
\<close>

datatype error = errNoPaths | errNoStacks | errNoMatchingPort string | errExternal string

text \<open>
  A Go panic of \<^verbatim>\<open>MarkExpiredStacks\<close>: slicing beyond the capacity, and writing through
  a nil pointer.
\<close>

datatype panic = SliceBoundsOutOfRange | NilPointerDereference

section \<open>Constants and helpers\<close>

definition StacksetHeritageLabelKey :: string where
  "StacksetHeritageLabelKey = ''stackset''"

definition StackVersionLabelKey :: string where
  "StackVersionLabelKey = ''stack-version''"

definition apiVersionAppsV1 :: string where
  "apiVersionAppsV1 = ''apps/v1''"

definition kindDeployment :: string where
  "kindDeployment = ''Deployment''"

definition selectorLabels :: "string set" where
  "selectorLabels = {StacksetHeritageLabelKey, StackVersionLabelKey}"

definition ProtocolTCP :: string where
  "ProtocolTCP = ''TCP''"

definition ServiceTypeClusterIP :: string where
  "ServiceTypeClusterIP = ''ClusterIP''"

text \<open>
  Modelled from the spec: the constant \<^verbatim>\<open>defaultVersion\<close> is declared outside the
  sources; the specification gives the fallback version as \<^verbatim>\<open>"01"\<close>.
\<close>

definition defaultVersion :: string where
  "defaultVersion = ''01''"

text \<open>
  Modelled from the spec: the constant \<^verbatim>\<open>defaultStackLifecycleLimit\<close> is declared outside
  the sources; the specification gives the default retention count as 10.
\<close>

definition defaultStackLifecycleLimit :: int where
  "defaultStackLifecycleLimit = 10"

text \<open>
  Modelled from the spec: the three annotation keys are declared outside the sources; the
  specification names them in its section on external interfaces.
\<close>

definition backendWeightsAnnotationKey :: string where
  "backendWeightsAnnotationKey = ''zalando.org/backend-weights''"

definition stackTrafficWeightsAnnotationKey :: string where
  "stackTrafficWeightsAnnotationKey = ''zalando.org/stack-traffic-weights''"

definition stackGenerationAnnotationKey :: string where
  "stackGenerationAnnotationKey = ''stackset-controller.zalando.org/stack-generation''"

text \<open>
  What the code uses and neither the sources nor the specification define is a parameter
  of the model: the constants \<^verbatim>\<open>APIVersion\<close> and \<^verbatim>\<open>KindStack\<close>, the helpers
  \<^verbatim>\<open>mergeLabels\<close>, \<^verbatim>\<open>convertCustomMetrics\<close> and \<^verbatim>\<open>createSubdomain\<close> of the same package, and
  \<^verbatim>\<open>json.Marshal\<close> on a map of weights. A helper that can fail returns the message of
  its error on the left.
\<close>

record externals =
  ext_APIVersion :: string
  ext_KindStack :: string
  mergeLabels :: "labels list \<Rightarrow> labels"
  convertCustomMetrics ::
    "string \<Rightarrow> string \<Rightarrow> AutoscalerMetrics list \<Rightarrow> string + (MetricSpec list \<times> labels)"
  createSubdomain :: "string \<Rightarrow> string \<Rightarrow> string + string"
  jsonMarshal :: "(string \<rightharpoonup> float64) \<Rightarrow> string + string"

text \<open>Decimal printing, as \<^verbatim>\<open>%d\<close>, \<^verbatim>\<open>strconv.Itoa\<close> and \<^verbatim>\<open>strconv.FormatInt(_, 10)\<close> do.\<close>

definition digitChar :: "nat \<Rightarrow> char" where
  "digitChar n = ''0123456789'' ! n"

function decimal :: "nat \<Rightarrow> string" where
  "decimal n = (if n < 10 then [digitChar n] else decimal (n div 10) @ [digitChar (n mod 10)])"
  by pat_completeness auto
termination
  by (relation "measure id") auto

declare decimal.simps [simp del]

definition FormatInt :: "int \<Rightarrow> string" where
  "FormatInt i = (if i < 0 then ''-'' @ decimal (nat (- i)) else decimal (nat i))"

text \<open>\<^verbatim>\<open>IntOrString.String()\<close>: the string, or the integer printed.\<close>

fun IntOrString_String :: "IntOrString \<Rightarrow> string" where
  "IntOrString_String (StrVal s) = s"
| "IntOrString_String (IntVal i) = FormatInt (sint i)"

definition mapCopy :: "labels \<Rightarrow> labels" where
  "mapCopy m = (\<lambda>k. m k)"

text \<open>\<^verbatim>\<open>limitLabels\<close>: the entries of \<open>labels\<close> whose key is one of \<open>validKeys\<close>.\<close>

definition limitLabels :: "labels \<Rightarrow> string set \<Rightarrow> labels" where
  "limitLabels labels validKeys = (\<lambda>k. if k \<in> validKeys then labels k else None)"

text \<open>
  \<^verbatim>\<open>templateInjectLabels\<close> writes into the template it is given, and returns it: a key
  of \<open>labels\<close> is set only where the template has no entry for it.
\<close>

definition templateInjectLabels :: "PodTemplateSpec \<Rightarrow> labels \<Rightarrow> PodTemplateSpec" where
  "templateInjectLabels template labels =
     template\<lparr>pt_ObjectMeta := (pt_ObjectMeta template)
       \<lparr>Labels := (\<lambda>key. case Labels (pt_ObjectMeta template) key of
                             Some own \<Rightarrow> Some own
                           | None \<Rightarrow> labels key)\<rparr>\<rparr>"

text \<open>
  \<^verbatim>\<open>DeepCopy\<close> of a pod template: a fresh object with the same content, so that writing
  into the copy leaves the original as it was.
\<close>

definition PodTemplateSpec_DeepCopy :: "PodTemplateSpec \<Rightarrow> PodTemplateSpec" where
  "PodTemplateSpec_DeepCopy template = template"

text \<open>
  Modelled from the spec: the methods \<^verbatim>\<open>Name\<close>, \<^verbatim>\<open>Namespace\<close>, \<^verbatim>\<open>HasTraffic\<close>,
  \<^verbatim>\<open>IsAutoscaled\<close> and \<^verbatim>\<open>ScaledDown\<close> of \<^verbatim>\<open>StackContainer\<close>, the helper \<^verbatim>\<open>wrapReplicas\<close>
  and the lookup \<^verbatim>\<open>stackByName\<close> are declared outside the sources. The three predicates
  follow the table of derived predicates of the specification, with the clock as the
  parameter \<open>now\<close>; \<^verbatim>\<open>wrapReplicas\<close> is the "write" of the replica decision;
  \<^verbatim>\<open>stackByName\<close> finds the Stack of that name in the working set.
\<close>

definition sc_Name :: "StackContainer \<Rightarrow> string" where
  "sc_Name sc = Name (stack_ObjectMeta (Stack sc))"

definition sc_Namespace :: "StackContainer \<Rightarrow> string" where
  "sc_Namespace sc = Namespace (stack_ObjectMeta (Stack sc))"

definition HasTraffic :: "StackContainer \<Rightarrow> bool" where
  "HasTraffic sc = (positive (actualTrafficWeight sc) \<or> positive (desiredTrafficWeight sc))"

definition IsAutoscaled :: "StackContainer \<Rightarrow> bool" where
  "IsAutoscaled sc =
     (AutoscalerSpec (stack_Spec (Stack sc)) \<noteq> None \<or>
      HorizontalPodAutoscalerSpec (stack_Spec (Stack sc)) \<noteq> None)"

definition ScaledDown :: "time \<Rightarrow> StackContainer \<Rightarrow> bool" where
  "ScaledDown now sc =
     (\<not> HasTraffic sc \<and>
      (case noTrafficSince sc of
         None \<Rightarrow> False
       | Some since \<Rightarrow> scaledownTTL sc \<le> now - since))"

definition wrapReplicas :: "int32 \<Rightarrow> int32 option" where
  "wrapReplicas replicas = Some replicas"

fun stackByName_loop :: "StackContainer list \<Rightarrow> string \<Rightarrow> StackContainer option" where
  "stackByName_loop [] name = None"
| "stackByName_loop (container # rest) name =
     (if sc_Name container = name then Some container else stackByName_loop rest name)"

definition stackByName :: "StackSetContainer \<Rightarrow> string \<Rightarrow> StackContainer option" where
  "stackByName ssc name = stackByName_loop (StackContainers ssc) name"

definition zeroTime :: time where
  "zeroTime = 0"

section \<open>The per-Stack generators\<close>

definition resourceMeta :: "externals \<Rightarrow> StackContainer \<Rightarrow> ObjectMeta" where
  "resourceMeta ext sc =
     (let resourceLabels = mapCopy (Labels (stack_ObjectMeta (Stack sc)))
      in \<lparr>Name = sc_Name sc,
          Namespace = sc_Namespace sc,
          UID = '''',
          Generation = 0,
          CreationTimestamp = zeroTime,
          Labels = resourceLabels,
          Annotations =
            [stackGenerationAnnotationKey \<mapsto>
               FormatInt (sint (Generation (stack_ObjectMeta (Stack sc))))],
          OwnerReferences =
            [\<lparr>ref_APIVersion = ext_APIVersion ext,
              ref_Kind = ext_KindStack ext,
              ref_Name = sc_Name sc,
              ref_UID = UID (stack_ObjectMeta (Stack sc))\<rparr>]\<rparr>)"

text \<open>
  \<^verbatim>\<open>servicePortsFromContainers\<close>: the two nested loops, each appending to \<open>ports\<close>; \<open>i\<close>
  and \<open>j\<close> are the indices of the container and of its port.
\<close>

definition servicePortOfContainerPort :: "nat \<Rightarrow> nat \<Rightarrow> ContainerPort \<Rightarrow> ServicePort" where
  "servicePortOfContainerPort i j port =
     (let name = ''port-'' @ decimal i @ ''-'' @ decimal j;
          name = (if cp_Name port \<noteq> '''' then cp_Name port else name);
          servicePort =
            \<lparr>sp_Name = name,
             sp_Protocol = cp_Protocol port,
             sp_Port = cp_ContainerPort port,
             sp_TargetPort = IntVal (cp_ContainerPort port),
             sp_NodePort = 0\<rparr>
      in if sp_Protocol servicePort = ''''
         then servicePort\<lparr>sp_Protocol := ProtocolTCP\<rparr>
         else servicePort)"

fun containerPorts_loop ::
  "nat \<Rightarrow> nat \<Rightarrow> ContainerPort list \<Rightarrow> ServicePort list \<Rightarrow> ServicePort list" where
  "containerPorts_loop i j [] ports = ports"
| "containerPorts_loop i j (port # rest) ports =
     containerPorts_loop i (Suc j) rest (ports @ [servicePortOfContainerPort i j port])"

fun containers_loop :: "nat \<Rightarrow> Container list \<Rightarrow> ServicePort list \<Rightarrow> ServicePort list" where
  "containers_loop i [] ports = ports"
| "containers_loop i (container # rest) ports =
     containers_loop (Suc i) rest (containerPorts_loop i 0 (c_Ports container) ports)"

definition servicePortsFromContainers :: "Container list \<Rightarrow> ServicePort list" where
  "servicePortsFromContainers containers = containers_loop 0 containers []"

text \<open>
  \<^verbatim>\<open>getServicePorts\<close>. The \<^verbatim>\<open>switch\<close> on the type of the backend port is
  \<open>portMatches\<close>; the loop returns at the first port that matches.
\<close>

fun portMatches :: "IntOrString \<Rightarrow> ServicePort \<Rightarrow> bool" where
  "portMatches (IntVal i) port = (sp_Port port = i)"
| "portMatches (StrVal s) port = (sp_Name port = s)"

fun anyPortMatches :: "IntOrString \<Rightarrow> ServicePort list \<Rightarrow> bool" where
  "anyPortMatches backendPort [] = False"
| "anyPortMatches backendPort (port # rest) =
     (if portMatches backendPort port then True else anyPortMatches backendPort rest)"

definition getServicePorts :: "StackSpec \<Rightarrow> IntOrString option \<Rightarrow> error + ServicePort list" where
  "getServicePorts stackSpec backendPort =
     (let servicePorts =
            (case Service stackSpec of
               None \<Rightarrow> servicePortsFromContainers (Containers (pt_Spec (PodTemplate stackSpec)))
             | Some service \<Rightarrow>
                 if length (Ports service) = 0
                 then servicePortsFromContainers (Containers (pt_Spec (PodTemplate stackSpec)))
                 else Ports service)
      in case backendPort of
           Some bp \<Rightarrow>
             if anyPortMatches bp servicePorts then Inr servicePorts
             else Inl (errNoMatchingPort (IntOrString_String bp))
         | None \<Rightarrow> Inr servicePorts)"

text \<open>
  \<^verbatim>\<open>GenerateDeployment\<close>. The labels are injected into a deep copy of the pod template
  of the Stack, so the function writes into no object that it was given.
\<close>

definition GenerateDeployment :: "externals \<Rightarrow> time \<Rightarrow> StackContainer \<Rightarrow> appsv1_Deployment" where
  "GenerateDeployment ext now sc =
     (let stack = Stack sc;
          desiredReplicas =
            (if prescalingActive sc then prescalingReplicas sc else stackReplicas sc);
          updatedReplicas =
            (if desiredReplicas \<noteq> 0 \<and> \<not> ScaledDown now sc
             then (if deploymentReplicas sc = 0 \<or>
                      (\<not> IsAutoscaled sc \<and> desiredReplicas \<noteq> deploymentReplicas sc)
                   then wrapReplicas desiredReplicas
                   else None)
             else (if deploymentReplicas sc \<noteq> 0 then wrapReplicas 0 else None))
      in \<lparr>dep_ObjectMeta = resourceMeta ext sc,
          dep_Replicas = updatedReplicas,
          dep_MatchLabels = limitLabels (Labels (stack_ObjectMeta stack)) selectorLabels,
          dep_Template =
            templateInjectLabels
              (PodTemplateSpec_DeepCopy (PodTemplate (stack_Spec stack)))
              (Labels (stack_ObjectMeta stack))\<rparr>)"

text \<open>
  \<^verbatim>\<open>GenerateHPA\<close>. \<open>prescaleMinReplicas\<close> is the last \<^verbatim>\<open>if\<close> of the function, which
  compares the two \<^verbatim>\<open>int32\<close> as signed numbers.
\<close>

definition prescaleMinReplicas ::
  "StackContainer \<Rightarrow> autoscaling_HorizontalPodAutoscaler \<Rightarrow> autoscaling_HorizontalPodAutoscaler"
  where
  "prescaleMinReplicas sc result =
     (if prescalingActive sc \<and>
         (case MinReplicas result of
            None \<Rightarrow> True
          | Some m \<Rightarrow> sint m < sint (prescalingReplicas sc))
      then result\<lparr>MinReplicas := Some (prescalingReplicas sc)\<rparr>
      else result)"

definition GenerateHPA ::
  "externals \<Rightarrow> StackContainer \<Rightarrow> error + autoscaling_HorizontalPodAutoscaler option" where
  "GenerateHPA ext sc =
     (let autoscalerSpec = AutoscalerSpec (stack_Spec (Stack sc));
          hpaSpec = HorizontalPodAutoscalerSpec (stack_Spec (Stack sc));
          result =
            \<lparr>out_ObjectMeta = resourceMeta ext sc,
             out_TypeMeta = \<lparr>Kind = ''HorizontalPodAutoscaler'', APIVersion = ''autoscaling/v2beta1''\<rparr>,
             ScaleTargetRef =
               \<lparr>ref_target_APIVersion = apiVersionAppsV1,
                ref_target_Kind = kindDeployment,
                ref_target_Name = sc_Name sc\<rparr>,
             MinReplicas = None,
             MaxReplicas = 0,
             Metrics = []\<rparr>
      in case autoscalerSpec of
           Some a \<Rightarrow>
             (case convertCustomMetrics ext (stacksetName sc) (sc_Name sc) (as_Metrics a) of
                Inl err \<Rightarrow> Inl (errExternal err)
              | Inr (metrics, annotations) \<Rightarrow>
                  Inr (Some (prescaleMinReplicas sc
                    (result\<lparr>out_ObjectMeta := (out_ObjectMeta result)
                               \<lparr>Annotations :=
                                  mergeLabels ext [Annotations (out_ObjectMeta result), annotations]\<rparr>,
                            MinReplicas := as_MinReplicas a,
                            MaxReplicas := as_MaxReplicas a,
                            Metrics := metrics\<rparr>))))
         | None \<Rightarrow>
             (case hpaSpec of
                None \<Rightarrow> Inr None
              | Some h \<Rightarrow>
                  Inr (Some (prescaleMinReplicas sc
                    (result\<lparr>MinReplicas := hpa_MinReplicas h,
                            MaxReplicas := hpa_MaxReplicas h,
                            Metrics := hpa_Metrics h\<rparr>)))))"

text \<open>\<^verbatim>\<open>GenerateService\<close>: the backend port is that of the ingress, when there is one.\<close>

definition GenerateService :: "externals \<Rightarrow> StackContainer \<Rightarrow> error + v1_Service" where
  "GenerateService ext sc =
     (let backendPort =
            (case ingressSpec sc of
               Some ingress \<Rightarrow> Some (BackendPort ingress)
             | None \<Rightarrow> None)
      in case getServicePorts (stack_Spec (Stack sc)) backendPort of
           Inl err \<Rightarrow> Inl err
         | Inr servicePorts \<Rightarrow>
             Inr \<lparr>service_ObjectMeta = resourceMeta ext sc,
                  service_Selector =
                    limitLabels (Labels (stack_ObjectMeta (Stack sc))) selectorLabels,
                  service_Type = ServiceTypeClusterIP,
                  service_Ports = servicePorts\<rparr>)"

text \<open>
  \<^verbatim>\<open>GenerateIngress\<close> of a \<^verbatim>\<open>StackContainer\<close>: one rule per host, the host rewritten by
  \<^verbatim>\<open>createSubdomain\<close>; the first host that cannot be rewritten ends the generation.
\<close>

fun stackIngressRules_loop ::
  "externals \<Rightarrow> string \<Rightarrow> IngressRule \<Rightarrow> string list \<Rightarrow> IngressRule list \<Rightarrow> error + IngressRule list"
  where
  "stackIngressRules_loop ext name rule [] rules = Inr rules"
| "stackIngressRules_loop ext name rule (host # rest) rules =
     (case createSubdomain ext host name of
        Inl err \<Rightarrow> Inl (errExternal err)
      | Inr newHost \<Rightarrow>
          stackIngressRules_loop ext name rule rest (rules @ [rule\<lparr>Host := newHost\<rparr>]))"

definition sc_GenerateIngress ::
  "externals \<Rightarrow> StackContainer \<Rightarrow> error + extensions_Ingress option" where
  "sc_GenerateIngress ext sc =
     (case ingressSpec sc of
        None \<Rightarrow> Inr None
      | Some ingress \<Rightarrow>
          (let meta = resourceMeta ext sc;
               result =
                 \<lparr>ingress_ObjectMeta =
                    meta\<lparr>Annotations :=
                           mergeLabels ext [Annotations meta, Annotations (ing_ObjectMeta ingress)]\<rparr>,
                  Rules = []\<rparr>;
               path =
                 \<lparr>path_Path = Path ingress,
                  Backend = \<lparr>ServiceName = sc_Name sc, ServicePort = BackendPort ingress\<rparr>\<rparr>;
               rule = \<lparr>Host = '''', Paths = [] @ [path]\<rparr>
           in case stackIngressRules_loop ext (sc_Name sc) rule (Hosts ingress) (Rules result) of
                Inl err \<Rightarrow> Inl err
              | Inr rules \<Rightarrow> Inr (Some (result\<lparr>Rules := rules\<rparr>))))"

section \<open>The StackSet-level decisions\<close>

definition currentStackVersion :: "StackSet \<Rightarrow> string" where
  "currentStackVersion stackset =
     (let version = Version (st_Spec (StackTemplate (ss_Spec stackset)))
      in if version = '''' then defaultVersion else version)"

definition generateStackName :: "StackSet \<Rightarrow> string \<Rightarrow> string" where
  "generateStackName stackset version = Name (ss_ObjectMeta stackset) @ ''-'' @ version"

text \<open>
  \<^verbatim>\<open>sanitizeServicePorts\<close> receives a pointer to a service specification, writes every port
  back into the slice of that specification (\<^verbatim>\<open>service.Ports[i] = port\<close>) and returns the
  pointer it received. The function below gives the specification behind that pointer after
  the loop; it is both the value returned and the new state of the caller's object.
\<close>

fun sanitizeServicePorts_loop ::
  "nat \<Rightarrow> ServicePort list \<Rightarrow> ServicePort list \<Rightarrow> ServicePort list" where
  "sanitizeServicePorts_loop i [] ports = ports"
| "sanitizeServicePorts_loop i (port # rest) ports =
     sanitizeServicePorts_loop (Suc i) rest
       (ports[i := (if sp_Protocol port = '''' then port\<lparr>sp_Protocol := ProtocolTCP\<rparr> else port)])"

definition sanitizeServicePorts :: "StackServiceSpec \<Rightarrow> StackServiceSpec" where
  "sanitizeServicePorts service =
     service\<lparr>Ports := sanitizeServicePorts_loop 0 (Ports service) (Ports service)\<rparr>"

text \<open>The service specification of the stack template, read and written through the StackSet.\<close>

definition templateService :: "StackSet \<Rightarrow> StackServiceSpec option" where
  "templateService stackset =
     Service (tmpl_StackSpec (st_Spec (StackTemplate (ss_Spec stackset))))"

definition templateService_store :: "StackServiceSpec option \<Rightarrow> StackSet \<Rightarrow> StackSet" where
  "templateService_store service stackset =
     stackset\<lparr>ss_Spec := (ss_Spec stackset)
       \<lparr>StackTemplate := (StackTemplate (ss_Spec stackset))
         \<lparr>st_Spec := (st_Spec (StackTemplate (ss_Spec stackset)))
           \<lparr>tmpl_StackSpec := (tmpl_StackSpec (st_Spec (StackTemplate (ss_Spec stackset))))
             \<lparr>Service := service\<rparr>\<rparr>\<rparr>\<rparr>\<rparr>"

text \<open>
  \<^verbatim>\<open>NewStack\<close> returns the optional new Stack and its version. It hands the template's own
  service specification to \<^verbatim>\<open>sanitizeServicePorts\<close>, not a copy, so the model also returns
  the working set as the call leaves it: the second component of the result.
\<close>

definition NewStack ::
  "externals \<Rightarrow> StackSetContainer \<Rightarrow> (StackContainer option \<times> string) \<times> StackSetContainer" where
  "NewStack ext ssc =
     (let stackset = StackSet ssc;
          observedStackVersion = ObservedStackVersion (ss_Status stackset);
          stackVersion = currentStackVersion stackset;
          stackName = generateStackName stackset stackVersion;
          stack = stackByName ssc stackName
      in if stack = None \<and> observedStackVersion \<noteq> stackVersion
         then
           (let service =
                  (case templateService stackset of
                     Some s \<Rightarrow> Some (sanitizeServicePorts s)
                   | None \<Rightarrow> None);
                stackset = templateService_store service stackset;
                template = tmpl_StackSpec (st_Spec (StackTemplate (ss_Spec stackset)))
            in ((Some
                  \<lparr>Stack =
                     \<lparr>stack_ObjectMeta =
                        \<lparr>Name = stackName,
                         Namespace = Namespace (ss_ObjectMeta stackset),
                         UID = '''',
                         Generation = 0,
                         CreationTimestamp = zeroTime,
                         Labels =
                           mergeLabels ext
                             [[StacksetHeritageLabelKey \<mapsto> Name (ss_ObjectMeta stackset)],
                              Labels (ss_ObjectMeta stackset),
                              [StackVersionLabelKey \<mapsto> stackVersion]],
                         Annotations =
                           Annotations (st_ObjectMeta (StackTemplate (ss_Spec stackset))),
                         OwnerReferences =
                           [\<lparr>ref_APIVersion = APIVersion (ss_TypeMeta stackset),
                             ref_Kind = Kind (ss_TypeMeta stackset),
                             ref_Name = Name (ss_ObjectMeta stackset),
                             ref_UID = UID (ss_ObjectMeta stackset)\<rparr>]\<rparr>,
                      stack_Spec =
                        \<lparr>Replicas = Replicas template,
                         HorizontalPodAutoscalerSpec = HorizontalPodAutoscalerSpec template,
                         Service = service,
                         PodTemplate = PodTemplate template,
                         AutoscalerSpec = AutoscalerSpec template\<rparr>\<rparr>,
                   PendingRemoval = False,
                   stacksetName = '''',
                   ingressSpec = None,
                   scaledownTTL = 0,
                   deploymentReplicas = 0,
                   createdReplicas = 0,
                   readyReplicas = 0,
                   updatedReplicas = 0,
                   desiredReplicas = 0,
                   stackReplicas = 0,
                   actualTrafficWeight = Finite 0,
                   desiredTrafficWeight = Finite 0,
                   noTrafficSince = None,
                   prescalingActive = False,
                   prescalingReplicas = 0,
                   prescalingDesiredTrafficWeight = Finite 0,
                   prescalingLastTrafficIncrease = None\<rparr>,
                 stackVersion),
                ssc\<lparr>StackSet := stackset\<rparr>))
         else ((None, ''''), ssc))"

text \<open>
  \<^verbatim>\<open>MarkExpiredStacks\<close>. The candidates are pointers into the working set, here the
  positions of the containers in \<open>StackContainers\<close>, in the order of the iteration.
  \<^verbatim>\<open>sort.Slice\<close> is not stable, so it is the parameter \<open>sortSlice\<close>, called with the
  comparison that the code passes. \<^verbatim>\<open>gcCandidates\<close> is made with the capacity
  \<^verbatim>\<open>len(ssc.StackContainers)\<close> and is never reallocated, so \<^verbatim>\<open>gcCandidates[:excessStacks]\<close>
  panics when \<open>excessStacks\<close> is above that capacity, and otherwise reads nil pointers
  beyond the length, where \<^verbatim>\<open>sc.PendingRemoval = true\<close> panics after the candidates before
  it have been marked. The result is the panic, if any, and the working set as the call
  leaves it.
\<close>

definition isGcCandidate :: "time \<Rightarrow> StackContainer \<Rightarrow> bool" where
  "isGcCandidate now sc = (ingressSpec sc = None \<or> ScaledDown now sc)"

fun gcCandidates_loop :: "time \<Rightarrow> StackContainer list \<Rightarrow> nat \<Rightarrow> nat list \<Rightarrow> nat list" where
  "gcCandidates_loop now [] p gcCandidates = gcCandidates"
| "gcCandidates_loop now (sc # rest) p gcCandidates =
     gcCandidates_loop now rest (Suc p)
       (if isGcCandidate now sc then gcCandidates @ [p] else gcCandidates)"

fun markPendingRemoval :: "nat list \<Rightarrow> StackContainer list \<Rightarrow> StackContainer list" where
  "markPendingRemoval [] containers = containers"
| "markPendingRemoval (p # rest) containers =
     markPendingRemoval rest (containers[p := (containers ! p)\<lparr>PendingRemoval := True\<rparr>])"

definition createdBefore :: "StackContainer list \<Rightarrow> nat \<Rightarrow> nat \<Rightarrow> bool" where
  "createdBefore containers p q =
     (CreationTimestamp (stack_ObjectMeta (Stack (containers ! p)))
        < CreationTimestamp (stack_ObjectMeta (Stack (containers ! q))))"

definition MarkExpiredStacks ::
  "((nat \<Rightarrow> nat \<Rightarrow> bool) \<Rightarrow> nat list \<Rightarrow> nat list) \<Rightarrow> time \<Rightarrow> StackSetContainer
     \<Rightarrow> panic option \<times> StackSetContainer" where
  "MarkExpiredStacks sortSlice now ssc =
     (let historyLimit =
            (case Limit (StackLifecycle (ss_Spec (StackSet ssc))) of
               Some limit \<Rightarrow> sint limit
             | None \<Rightarrow> defaultStackLifecycleLimit);
          capacity = length (StackContainers ssc);
          gcCandidates = gcCandidates_loop now (StackContainers ssc) 0 []
      in if int (length gcCandidates) \<le> historyLimit then (None, ssc)
         else
           (let gcCandidates = sortSlice (createdBefore (StackContainers ssc)) gcCandidates;
                excessStacks = int (length gcCandidates) - historyLimit
            in if int capacity < excessStacks then (Some SliceBoundsOutOfRange, ssc)
               else if int (length gcCandidates) < excessStacks
               then (Some NilPointerDereference,
                     ssc\<lparr>StackContainers :=
                           markPendingRemoval gcCandidates (StackContainers ssc)\<rparr>)
               else (None,
                     ssc\<lparr>StackContainers :=
                           markPendingRemoval (take (nat excessStacks) gcCandidates)
                             (StackContainers ssc)\<rparr>)))"

text \<open>An insertion sort by a comparison, one of the sorts that \<open>sortSlice\<close> stands for.\<close>

fun insertBy :: "('a \<Rightarrow> 'a \<Rightarrow> bool) \<Rightarrow> 'a \<Rightarrow> 'a list \<Rightarrow> 'a list" where
  "insertBy lt x [] = [x]"
| "insertBy lt x (y # ys) = (if lt x y then x # y # ys else y # insertBy lt x ys)"

fun insertionSort :: "('a \<Rightarrow> 'a \<Rightarrow> bool) \<Rightarrow> 'a list \<Rightarrow> 'a list" where
  "insertionSort lt [] = []"
| "insertionSort lt (x # xs) = insertBy lt x (insertionSort lt xs)"

text \<open>
  \<^verbatim>\<open>GenerateIngress\<close> of the \<^verbatim>\<open>StackSetContainer\<close>: the shared ingress. The loop over the
  containers builds the paths and the two maps of weights. All paths have the path and the
  port of the ingress specification, so two of them with the same service name are equal
  and there is one list that \<^verbatim>\<open>sort.Slice\<close> can return: the paths sorted by service name,
  strings compared byte by byte.
\<close>

fun sharedIngress_loop ::
  "StackSetIngressSpec \<Rightarrow> StackContainer list
     \<Rightarrow> HTTPIngressPath list \<times> (string \<rightharpoonup> float64) \<times> (string \<rightharpoonup> float64)
     \<Rightarrow> HTTPIngressPath list \<times> (string \<rightharpoonup> float64) \<times> (string \<rightharpoonup> float64)" where
  "sharedIngress_loop ingress [] state = state"
| "sharedIngress_loop ingress (sc # rest) (paths, actualWeights, desiredWeights) =
     (let (paths, actualWeights) =
            (if positive (actualTrafficWeight sc)
             then (paths @
                     [\<lparr>path_Path = Path ingress,
                       Backend =
                         \<lparr>ServiceName = sc_Name sc, ServicePort = BackendPort ingress\<rparr>\<rparr>],
                   actualWeights(sc_Name sc \<mapsto> actualTrafficWeight sc))
             else (paths, actualWeights));
          desiredWeights =
            (if positive (desiredTrafficWeight sc)
             then desiredWeights(sc_Name sc \<mapsto> desiredTrafficWeight sc)
             else desiredWeights)
      in sharedIngress_loop ingress rest (paths, actualWeights, desiredWeights))"

fun sharedIngressRules_loop :: "IngressRule \<Rightarrow> string list \<Rightarrow> IngressRule list \<Rightarrow> IngressRule list"
  where
  "sharedIngressRules_loop rule [] rules = rules"
| "sharedIngressRules_loop rule (host # rest) rules =
     sharedIngressRules_loop rule rest (rules @ [rule\<lparr>Host := host\<rparr>])"

definition ssc_GenerateIngress ::
  "externals \<Rightarrow> StackSetContainer \<Rightarrow> error + extensions_Ingress option" where
  "ssc_GenerateIngress ext ssc =
     (let stackset = StackSet ssc
      in case Ingress (ss_Spec stackset) of
           None \<Rightarrow> Inr None
         | Some ingress \<Rightarrow>
             (let labels =
                    mergeLabels ext
                      [[StacksetHeritageLabelKey \<mapsto> Name (ss_ObjectMeta stackset)],
                       Labels (ss_ObjectMeta stackset)];
                  result =
                    \<lparr>ingress_ObjectMeta =
                       \<lparr>Name = Name (ss_ObjectMeta stackset),
                        Namespace = Namespace (ss_ObjectMeta stackset),
                        UID = '''',
                        Generation = 0,
                        CreationTimestamp = zeroTime,
                        Labels = labels,
                        Annotations = mergeLabels ext [Annotations (ing_ObjectMeta ingress)],
                        OwnerReferences =
                          [\<lparr>ref_APIVersion = APIVersion (ss_TypeMeta stackset),
                            ref_Kind = Kind (ss_TypeMeta stackset),
                            ref_Name = Name (ss_ObjectMeta stackset),
                            ref_UID = UID (ss_ObjectMeta stackset)\<rparr>]\<rparr>,
                     Rules = []\<rparr>;
                  rule = \<lparr>Host = '''', Paths = []\<rparr>;
                  (paths, actualWeights, desiredWeights) =
                    sharedIngress_loop ingress (StackContainers ssc)
                      (Paths rule, Map.empty, Map.empty)
              in if length paths = 0 then Inl errNoPaths
                 else
                   (let rule = rule\<lparr>Paths := sort_key (\<lambda>p. ServiceName (Backend p)) paths\<rparr>;
                        result =
                          result\<lparr>Rules := sharedIngressRules_loop rule (Hosts ingress) (Rules result)\<rparr>
                    in case jsonMarshal ext actualWeights of
                         Inl err \<Rightarrow> Inl (errExternal err)
                       | Inr actualWeightsData \<Rightarrow>
                           (case jsonMarshal ext desiredWeights of
                              Inl err \<Rightarrow> Inl (errExternal err)
                            | Inr desiredWeightData \<Rightarrow>
                                Inr (Some (result\<lparr>ingress_ObjectMeta := (ingress_ObjectMeta result)
                                  \<lparr>Annotations := (Annotations (ingress_ObjectMeta result))
                                     (backendWeightsAnnotationKey \<mapsto> actualWeightsData,
                                      stackTrafficWeightsAnnotationKey \<mapsto> desiredWeightData)\<rparr>\<rparr>))))))"

section \<open>The specification's wording of the decisions\<close>

text \<open>
  The replica decision as the specification writes it, over the six inputs it names:
  \<open>desired\<close> is the prescaling target while prescaling is active and the replicas of the
  Stack otherwise; \<open>None\<close> is "leave unset".
\<close>

definition spec_deploymentReplicas ::
  "bool \<Rightarrow> int32 \<Rightarrow> int32 \<Rightarrow> int32 \<Rightarrow> bool \<Rightarrow> bool \<Rightarrow> int32 option" where
  "spec_deploymentReplicas prescaling prescalingTarget stackCount deploymentCount scaledDown autoscaled =
     (let desired = (if prescaling then prescalingTarget else stackCount)
      in if desired \<noteq> 0 \<and> \<not> scaledDown
         then (if deploymentCount = 0 then Some desired
               else if \<not> autoscaled \<and> desired \<noteq> deploymentCount then Some desired
               else None)
         else (if deploymentCount \<noteq> 0 then Some 0 else None))"

text \<open>
  The configured \<^verbatim>\<open>minReplicas\<close>: that of the autoscaler specification when there is one,
  else that of the horizontal pod autoscaler specification.
\<close>

definition configuredMinReplicas :: "StackContainer \<Rightarrow> int32 option" where
  "configuredMinReplicas sc =
     (case AutoscalerSpec (stack_Spec (Stack sc)) of
        Some a \<Rightarrow> as_MinReplicas a
      | None \<Rightarrow>
          (case HorizontalPodAutoscalerSpec (stack_Spec (Stack sc)) of
             Some h \<Rightarrow> hpa_MinReplicas h
           | None \<Rightarrow> None))"

text \<open>A port missing a protocol gets TCP.\<close>

definition spec_defaultProtocol :: "ServicePort \<Rightarrow> ServicePort" where
  "spec_defaultProtocol port =
     (if sp_Protocol port = '''' then port\<lparr>sp_Protocol := ''TCP''\<rparr> else port)"

text \<open>
  The service port synthesized from port \<open>j\<close> of container \<open>i\<close>, and the list of them,
  one per container port, containers and their ports in order.
\<close>

definition spec_synthesizedPort :: "nat \<Rightarrow> nat \<Rightarrow> ContainerPort \<Rightarrow> ServicePort" where
  "spec_synthesizedPort i j port =
     \<lparr>sp_Name =
        (if cp_Name port = '''' then ''port-'' @ decimal i @ ''-'' @ decimal j else cp_Name port),
      sp_Protocol = (if cp_Protocol port = '''' then ''TCP'' else cp_Protocol port),
      sp_Port = cp_ContainerPort port,
      sp_TargetPort = IntVal (cp_ContainerPort port),
      sp_NodePort = 0\<rparr>"

definition spec_synthesizedPorts :: "Container list \<Rightarrow> ServicePort list" where
  "spec_synthesizedPorts containers =
     concat (map (\<lambda>(i, container).
                map (\<lambda>(j, port). spec_synthesizedPort i j port)
                  (enumerate 0 (c_Ports container)))
              (enumerate 0 containers))"

text \<open>
  The ports of the service as the code chooses them: those of the service block when it is
  there and lists a port, the synthesized ones otherwise.
\<close>

definition chosenServicePorts :: "StackSpec \<Rightarrow> ServicePort list" where
  "chosenServicePorts stackSpec =
     (case Service stackSpec of
        Some service \<Rightarrow>
          if Ports service \<noteq> [] then Ports service
          else spec_synthesizedPorts (Containers (pt_Spec (PodTemplate stackSpec)))
      | None \<Rightarrow> spec_synthesizedPorts (Containers (pt_Spec (PodTemplate stackSpec))))"

text \<open>A backend port matches a service port by integer port or by name.\<close>

definition spec_matchesBackendPort :: "IntOrString \<Rightarrow> ServicePort \<Rightarrow> bool" where
  "spec_matchesBackendPort backendPort port =
     (case backendPort of
        IntVal i \<Rightarrow> sp_Port port = i
      | StrVal s \<Rightarrow> sp_Name port = s)"

text \<open>
  For the garbage collection: the retention limit of a working set, that of the lifecycle
  when it is set and 10 otherwise, and the creation time of the Stack at a position.
\<close>

definition historyLimitOf :: "StackSetContainer \<Rightarrow> int" where
  "historyLimitOf ssc =
     (case Limit (StackLifecycle (ss_Spec (StackSet ssc))) of
        Some limit \<Rightarrow> sint limit
      | None \<Rightarrow> 10)"

definition createdAt :: "StackSetContainer \<Rightarrow> nat \<Rightarrow> time" where
  "createdAt ssc p = CreationTimestamp (stack_ObjectMeta (Stack (StackContainers ssc ! p)))"

text \<open>
  For the shared ingress: the path of a Stack, and the map from the names of the Stacks
  with a positive weight to that weight, as the loop writes it (where two Stacks have the
  same name the later one stays).
\<close>

definition pathOf :: "StackSetIngressSpec \<Rightarrow> StackContainer \<Rightarrow> HTTPIngressPath" where
  "pathOf ingress sc =
     \<lparr>path_Path = Path ingress,
      Backend = \<lparr>ServiceName = sc_Name sc, ServicePort = BackendPort ingress\<rparr>\<rparr>"

definition positiveWeights ::
  "(StackContainer \<Rightarrow> float64) \<Rightarrow> StackContainer list \<Rightarrow> (string \<rightharpoonup> float64)" where
  "positiveWeights weight scs =
     map_of (rev (map (\<lambda>sc. (sc_Name sc, weight sc)) (filter (\<lambda>sc. positive (weight sc)) scs)))"

section \<open>Example inputs\<close>

text \<open>
  Objects with every field at its zero value, from which the examples are built, and one
  choice of the parameters of the model; in it, a map of weights is rendered as the names
  among \<open>foo-v1\<close>, \<open>foo-v2\<close> and \<open>foo-v3\<close> that have an entry.
\<close>

definition zeroObjectMeta :: ObjectMeta where
  "zeroObjectMeta =
     \<lparr>Name = '''', Namespace = '''', UID = '''', Generation = 0, CreationTimestamp = zeroTime,
      Labels = Map.empty, Annotations = Map.empty, OwnerReferences = []\<rparr>"

definition zeroStackSpec :: StackSpec where
  "zeroStackSpec =
     \<lparr>Replicas = None,
      HorizontalPodAutoscalerSpec = None,
      Service = None,
      PodTemplate = \<lparr>pt_ObjectMeta = zeroObjectMeta, pt_Spec = \<lparr>Containers = []\<rparr>\<rparr>,
      AutoscalerSpec = None\<rparr>"

definition zeroStackContainer :: StackContainer where
  "zeroStackContainer =
     \<lparr>Stack = \<lparr>stack_ObjectMeta = zeroObjectMeta, stack_Spec = zeroStackSpec\<rparr>,
      PendingRemoval = False,
      stacksetName = '''',
      ingressSpec = None,
      scaledownTTL = 0,
      deploymentReplicas = 0,
      createdReplicas = 0,
      readyReplicas = 0,
      updatedReplicas = 0,
      desiredReplicas = 0,
      stackReplicas = 0,
      actualTrafficWeight = Finite 0,
      desiredTrafficWeight = Finite 0,
      noTrafficSince = None,
      prescalingActive = False,
      prescalingReplicas = 0,
      prescalingDesiredTrafficWeight = Finite 0,
      prescalingLastTrafficIncrease = None\<rparr>"

definition zeroStackSet :: StackSet where
  "zeroStackSet =
     \<lparr>ss_TypeMeta = \<lparr>Kind = '''', APIVersion = ''''\<rparr>,
      ss_ObjectMeta = zeroObjectMeta,
      ss_Spec =
        \<lparr>Ingress = None,
         StackLifecycle = \<lparr>ScaledownTTLSeconds = None, Limit = None\<rparr>,
         StackTemplate =
           \<lparr>st_ObjectMeta = zeroObjectMeta,
            st_Spec = \<lparr>tmpl_StackSpec = zeroStackSpec, Version = ''''\<rparr>\<rparr>\<rparr>,
      ss_Status =
        \<lparr>Stacks = 0, ReadyStacks = 0, StacksWithTraffic = 0, ObservedStackVersion = ''''\<rparr>\<rparr>"

definition exampleExternals :: externals where
  "exampleExternals =
     \<lparr>ext_APIVersion = ''zalando.org/v1'',
      ext_KindStack = ''Stack'',
      mergeLabels = (\<lambda>labelMaps. foldl (++) Map.empty labelMaps),
      convertCustomMetrics = (\<lambda>stacksetName stackName metrics. Inr ([], Map.empty)),
      createSubdomain = (\<lambda>host name. Inr (name @ ''.'' @ host)),
      jsonMarshal =
        (\<lambda>weights.
           Inr (concat (map (\<lambda>name. if weights name = None then [] else name @ '';'')
                          [''foo-v1'', ''foo-v2'', ''foo-v3''])))\<rparr>"

text \<open>A StackSet \<open>foo\<close> in namespace \<open>bar\<close>, and a Stack of a given name and creation time.\<close>

definition exampleStackSet :: StackSet where
  "exampleStackSet =
     zeroStackSet\<lparr>ss_ObjectMeta := zeroObjectMeta\<lparr>Name := ''foo'', Namespace := ''bar''\<rparr>\<rparr>"

definition exampleStack :: "string \<Rightarrow> time \<Rightarrow> StackContainer" where
  "exampleStack name created =
     zeroStackContainer
       \<lparr>Stack :=
          \<lparr>stack_ObjectMeta =
             zeroObjectMeta\<lparr>Name := name, Namespace := ''bar'', CreationTimestamp := created\<rparr>,
           stack_Spec = zeroStackSpec\<rparr>\<rparr>"

definition exampleIngressSpec :: StackSetIngressSpec where
  "exampleIngressSpec =
     \<lparr>ing_ObjectMeta = zeroObjectMeta,
      Hosts = [''example.org''],
      BackendPort = IntVal 80,
      Path = ''/''\<rparr>"

text \<open>
  A Stack \<open>foo-v2\<close> with a horizontal pod autoscaler specification of at least 3 replicas,
  being prescaled to 5.
\<close>

definition exampleAutoscaledStack :: StackContainer where
  "exampleAutoscaledStack =
     (exampleStack ''foo-v2'' 2)
       \<lparr>Stack :=
          \<lparr>stack_ObjectMeta = zeroObjectMeta\<lparr>Name := ''foo-v2''\<rparr>,
           stack_Spec = zeroStackSpec
             \<lparr>HorizontalPodAutoscalerSpec :=
                Some \<lparr>hpa_ObjectMeta = zeroObjectMeta, hpa_MinReplicas = Some 3,
                      hpa_MaxReplicas = 10, hpa_Metrics = []\<rparr>\<rparr>\<rparr>,
        prescalingActive := True,
        prescalingReplicas := 5\<rparr>"

text \<open>
  A Stack \<open>foo-v3\<close> with an autoscaler specification of at least 2 replicas, not being
  prescaled.
\<close>

definition exampleAutoscalerStack :: StackContainer where
  "exampleAutoscalerStack =
     (exampleStack ''foo-v3'' 3)
       \<lparr>Stack :=
          \<lparr>stack_ObjectMeta = zeroObjectMeta\<lparr>Name := ''foo-v3''\<rparr>,
           stack_Spec = zeroStackSpec
             \<lparr>AutoscalerSpec :=
                Some \<lparr>as_MinReplicas = Some 2, as_MaxReplicas = 10, as_Metrics = []\<rparr>\<rparr>\<rparr>\<rparr>"

text \<open>
  Two Stacks \<open>foo-v1\<close> with the selector labels \<open>stackset = foo\<close> and
  \<open>stack-version = v1\<close>: the pod template of the first sets a label \<open>app\<close>, that of the
  second sets \<open>stackset\<close> itself, to \<open>bar\<close>.
\<close>

definition labelledStack :: StackContainer where
  "labelledStack =
     zeroStackContainer
       \<lparr>Stack :=
          \<lparr>stack_ObjectMeta =
             zeroObjectMeta\<lparr>Name := ''foo-v1'',
               Labels := [''stackset'' \<mapsto> ''foo'', ''stack-version'' \<mapsto> ''v1'']\<rparr>,
           stack_Spec =
             zeroStackSpec
               \<lparr>PodTemplate :=
                  \<lparr>pt_ObjectMeta = zeroObjectMeta\<lparr>Labels := [''app'' \<mapsto> ''web'']\<rparr>,
                   pt_Spec = \<lparr>Containers = []\<rparr>\<rparr>\<rparr>\<rparr>\<rparr>"

definition overridingStack :: StackContainer where
  "overridingStack =
     zeroStackContainer
       \<lparr>Stack :=
          \<lparr>stack_ObjectMeta =
             zeroObjectMeta\<lparr>Name := ''foo-v1'',
               Labels := [''stackset'' \<mapsto> ''foo'', ''stack-version'' \<mapsto> ''v1'']\<rparr>,
           stack_Spec =
             zeroStackSpec
               \<lparr>PodTemplate :=
                  \<lparr>pt_ObjectMeta = zeroObjectMeta\<lparr>Labels := [''stackset'' \<mapsto> ''bar'']\<rparr>,
                   pt_Spec = \<lparr>Containers = []\<rparr>\<rparr>\<rparr>\<rparr>\<rparr>"

text \<open>
  Two Stacks \<open>foo-v1\<close> for the service. The first has an autoscaler specification, a
  service block that lists no port, and one container with an unnamed port 8080. The
  second has a service block with the port \<open>http\<close>, 80, and the ingress of the examples,
  whose backend port is the integer 80.
\<close>

definition emptyServiceStack :: StackContainer where
  "emptyServiceStack =
     (exampleStack ''foo-v1'' 1)
       \<lparr>Stack :=
          \<lparr>stack_ObjectMeta = zeroObjectMeta\<lparr>Name := ''foo-v1''\<rparr>,
           stack_Spec =
             \<lparr>Replicas = None,
              HorizontalPodAutoscalerSpec = None,
              Service = Some \<lparr>svc_ObjectMeta = zeroObjectMeta, Ports = []\<rparr>,
              PodTemplate =
                \<lparr>pt_ObjectMeta = zeroObjectMeta,
                 pt_Spec = \<lparr>Containers =
                   [\<lparr>c_Name = ''app'', c_Image = ''nginx'',
                     c_Ports = [\<lparr>cp_Name = '''', cp_ContainerPort = 8080, cp_Protocol = ''''\<rparr>]\<rparr>]\<rparr>\<rparr>,
              AutoscalerSpec = Some \<lparr>as_MinReplicas = None, as_MaxReplicas = 4, as_Metrics = []\<rparr>\<rparr>\<rparr>\<rparr>"

definition httpPort :: ServicePort where
  "httpPort =
     \<lparr>sp_Name = ''http'', sp_Protocol = ''TCP'', sp_Port = 80,
      sp_TargetPort = IntVal 8080, sp_NodePort = 0\<rparr>"

definition servedStack :: StackContainer where
  "servedStack =
     (exampleStack ''foo-v1'' 1)
       \<lparr>Stack :=
          \<lparr>stack_ObjectMeta = zeroObjectMeta\<lparr>Name := ''foo-v1''\<rparr>,
           stack_Spec =
             zeroStackSpec\<lparr>Service := Some \<lparr>svc_ObjectMeta = zeroObjectMeta, Ports = [httpPort]\<rparr>\<rparr>\<rparr>,
        ingressSpec := Some exampleIngressSpec\<rparr>"

text \<open>
  The StackSet \<open>foo\<close> with template version \<open>v1\<close>, no version observed yet, and a
  service block in the template whose port \<open>http\<close> names no protocol.
\<close>

definition freshStackSet :: StackSet where
  "freshStackSet =
     exampleStackSet
       \<lparr>ss_Spec := (ss_Spec exampleStackSet)
          \<lparr>StackTemplate :=
             \<lparr>st_ObjectMeta = zeroObjectMeta,
              st_Spec =
                \<lparr>tmpl_StackSpec =
                   zeroStackSpec
                     \<lparr>Service :=
                        Some \<lparr>svc_ObjectMeta = zeroObjectMeta,
                              Ports = [\<lparr>sp_Name = ''http'', sp_Protocol = '''', sp_Port = 80,
                                        sp_TargetPort = IntVal 8080, sp_NodePort = 0\<rparr>]\<rparr>\<rparr>,
                 Version = ''v1''\<rparr>\<rparr>\<rparr>\<rparr>"

text \<open>
  Working sets for the garbage collection. In \<open>retentionExample\<close> the limit is 1; the
  Stacks \<open>foo-v1\<close> and \<open>foo-v2\<close>, created at 1 and 2, have no ingress, and \<open>foo-v3\<close> has
  one and serves all the traffic. In the other two the limit is \<open>-1\<close>: one Stack without
  ingress, and that Stack beside the serving one.
\<close>

definition servingStack :: StackContainer where
  "servingStack =
     (exampleStack ''foo-v3'' 3)
       \<lparr>ingressSpec := Some exampleIngressSpec,
        actualTrafficWeight := Finite 100,
        desiredTrafficWeight := Finite 100\<rparr>"

definition stackSetWithLimit :: "int32 \<Rightarrow> StackSet" where
  "stackSetWithLimit limit =
     exampleStackSet
       \<lparr>ss_Spec := (ss_Spec exampleStackSet)
          \<lparr>StackLifecycle := \<lparr>ScaledownTTLSeconds = None, Limit = Some limit\<rparr>\<rparr>\<rparr>"

definition retentionExample :: StackSetContainer where
  "retentionExample =
     \<lparr>StackSet = stackSetWithLimit 1,
      StackContainers = [exampleStack ''foo-v1'' 1, exampleStack ''foo-v2'' 2, servingStack]\<rparr>"

definition negativeLimitExample :: StackSetContainer where
  "negativeLimitExample =
     \<lparr>StackSet = stackSetWithLimit (- 1),
      StackContainers = [exampleStack ''foo-v1'' 1]\<rparr>"

definition negativeLimitServingExample :: StackSetContainer where
  "negativeLimitServingExample =
     \<lparr>StackSet = stackSetWithLimit (- 1),
      StackContainers = [exampleStack ''foo-v1'' 1, servingStack]\<rparr>"

text \<open>
  The StackSet \<open>foo\<close> with the ingress of the examples, over three Stacks: \<open>foo-v2\<close>
  serves 30, \<open>foo-v1\<close> serves 70 and is to get all the traffic, \<open>foo-v3\<close> has none. In
  \<open>idleIngressExample\<close> its only Stack has no traffic.
\<close>

definition sharedIngressExample :: StackSetContainer where
  "sharedIngressExample =
     \<lparr>StackSet = exampleStackSet\<lparr>ss_Spec := (ss_Spec exampleStackSet)\<lparr>Ingress := Some exampleIngressSpec\<rparr>\<rparr>,
      StackContainers =
        [(exampleStack ''foo-v2'' 2)
           \<lparr>ingressSpec := Some exampleIngressSpec, actualTrafficWeight := Finite 30\<rparr>,
         (exampleStack ''foo-v1'' 1)
           \<lparr>ingressSpec := Some exampleIngressSpec, actualTrafficWeight := Finite 70,
            desiredTrafficWeight := Finite 100\<rparr>,
         (exampleStack ''foo-v3'' 3)\<lparr>ingressSpec := Some exampleIngressSpec\<rparr>]\<rparr>"

definition idleIngressExample :: StackSetContainer where
  "idleIngressExample =
     \<lparr>StackSet = exampleStackSet\<lparr>ss_Spec := (ss_Spec exampleStackSet)\<lparr>Ingress := Some exampleIngressSpec\<rparr>\<rparr>,
      StackContainers = [(exampleStack ''foo-v1'' 1)\<lparr>ingressSpec := Some exampleIngressSpec\<rparr>]\<rparr>"

section \<open>Properties of the helpers\<close>

lemma selectorLabels_keys: "selectorLabels = {''stackset'', ''stack-version''}"
  by (simp add: selectorLabels_def StacksetHeritageLabelKey_def StackVersionLabelKey_def)

text \<open>
  Labels restricted to a set of keys are part of the labels merged under a second map
  exactly when the second map leaves those entries alone.
\<close>

lemma restrict_le_add_iff:
  "(m |` K \<subseteq>\<^sub>m m ++ own) \<longleftrightarrow>
     (\<forall>k \<in> K. \<forall>v. m k = Some v \<longrightarrow> own k = None \<or> own k = Some v)"
proof
  assume le: "m |` K \<subseteq>\<^sub>m m ++ own"
  show "\<forall>k \<in> K. \<forall>v. m k = Some v \<longrightarrow> own k = None \<or> own k = Some v"
  proof (intro ballI allI impI)
    fix k v assume k: "k \<in> K" and v: "m k = Some v"
    then have "k \<in> dom (m |` K)" by (simp add: restrict_map_def dom_def)
    with le have "(m |` K) k = (m ++ own) k" by (simp add: map_le_def)
    with k v have "(m ++ own) k = Some v" by simp
    then show "own k = None \<or> own k = Some v"
      by (cases "own k") (simp_all add: map_add_def)
  qed
next
  assume r: "\<forall>k \<in> K. \<forall>v. m k = Some v \<longrightarrow> own k = None \<or> own k = Some v"
  show "m |` K \<subseteq>\<^sub>m m ++ own"
    unfolding map_le_def
  proof
    fix a assume "a \<in> dom (m |` K)"
    then obtain v where a: "a \<in> K" and v: "m a = Some v"
      by (auto simp: restrict_map_def dom_def split: if_splits)
    with r have "own a = None \<or> own a = Some v" by blast
    with a v show "(m |` K) a = (m ++ own) a"
      by (auto simp: map_add_def)
  qed
qed

lemma ssc_GenerateIngress_no_spec:
  "Ingress (ss_Spec (StackSet ssc)) = None \<Longrightarrow> ssc_GenerateIngress ext ssc = Inr None"
  by (simp add: ssc_GenerateIngress_def)

lemma sc_GenerateIngress_no_spec:
  "ingressSpec sc = None \<Longrightarrow> sc_GenerateIngress ext sc = Inr None"
  by (simp add: sc_GenerateIngress_def)

lemma GenerateHPA_no_spec:
  "AutoscalerSpec (stack_Spec (Stack sc)) = None \<Longrightarrow>
   HorizontalPodAutoscalerSpec (stack_Spec (Stack sc)) = None \<Longrightarrow>
   GenerateHPA ext sc = Inr None"
  by (simp add: GenerateHPA_def)

section \<open>The replica decision of the deployment\<close>

text \<open>
  C4. The replica count that \<^verbatim>\<open>GenerateDeployment\<close> writes is the one the specification's
  algorithm gives: with \<open>desired\<close> the prescaling replicas while prescaling is active and
  the Stack's replicas otherwise, a Stack with \<open>desired \<noteq> 0\<close> that is not scaled down
  gets \<open>desired\<close> when the deployment has 0 replicas, or when the Stack is not autoscaled
  and \<open>desired\<close> differs from the deployment's replicas, and is left unset otherwise; a
  Stack with \<open>desired = 0\<close> or scaled down gets 0 when the deployment's replicas are not
  0, and is left unset otherwise.
\<close>

theorem GenerateDeployment_replicas:
  "dep_Replicas (GenerateDeployment ext now sc) =
     spec_deploymentReplicas (prescalingActive sc) (prescalingReplicas sc) (stackReplicas sc)
       (deploymentReplicas sc) (ScaledDown now sc) (IsAutoscaled sc)"
  by (simp add: GenerateDeployment_def spec_deploymentReplicas_def wrapReplicas_def Let_def)

text \<open>A Stack prescaled to 5 whose deployment has no replicas yet gets 5.\<close>

theorem GenerateDeployment_replicas_witness:
  "dep_Replicas (GenerateDeployment exampleExternals 0
      (zeroStackContainer\<lparr>prescalingActive := True, prescalingReplicas := 5\<rparr>)) = Some 5"
  using GenerateDeployment_replicas
    [of exampleExternals 0 "zeroStackContainer\<lparr>prescalingActive := True, prescalingReplicas := 5\<rparr>"]
  by (simp add: spec_deploymentReplicas_def ScaledDown_def HasTraffic_def zeroStackContainer_def)

section \<open>The minimum of the autoscaler while prescaling\<close>

text \<open>
  What \<^verbatim>\<open>GenerateHPA\<close> returns, branch by branch: with an autoscaler specification, the
  error of the metric conversion or an autoscaler; with only a horizontal pod autoscaler
  specification, an autoscaler; with neither, nothing.
\<close>

lemma GenerateHPA_produced:
  "(case AutoscalerSpec (stack_Spec (Stack sc)) of
      Some a \<Rightarrow>
        (case convertCustomMetrics ext (stacksetName sc) (sc_Name sc) (as_Metrics a) of
           Inl err \<Rightarrow> GenerateHPA ext sc = Inl (errExternal err)
         | Inr converted \<Rightarrow> (\<exists>hpa. GenerateHPA ext sc = Inr (Some hpa)))
    | None \<Rightarrow>
        (case HorizontalPodAutoscalerSpec (stack_Spec (Stack sc)) of
           Some h \<Rightarrow> (\<exists>hpa. GenerateHPA ext sc = Inr (Some hpa))
         | None \<Rightarrow> GenerateHPA ext sc = Inr None))"
  by (simp add: GenerateHPA_def Let_def split: option.splits sum.splits prod.splits)

lemma GenerateHPA_clamp:
  assumes "GenerateHPA ext sc = Inr (Some hpa)"
  shows "(prescalingActive sc \<longrightarrow>
            (\<exists>m. MinReplicas hpa = Some m \<and> sint (prescalingReplicas sc) \<le> sint m) \<and>
            (MinReplicas hpa =
               (case configuredMinReplicas sc of
                  None \<Rightarrow> Some (prescalingReplicas sc)
                | Some c \<Rightarrow> if sint c < sint (prescalingReplicas sc)
                            then Some (prescalingReplicas sc) else Some c))) \<and>
         (\<not> prescalingActive sc \<longrightarrow> MinReplicas hpa = configuredMinReplicas sc)"
  using assms
  by (auto simp: GenerateHPA_def configuredMinReplicas_def prescaleMinReplicas_def Let_def
      split: option.splits sum.splits prod.splits if_splits)

text \<open>
  C6. \<^verbatim>\<open>GenerateHPA\<close> produces an autoscaler for every Stack with a horizontal pod
  autoscaler specification and no autoscaler specification, and for every Stack with an
  autoscaler specification whose metrics can be converted (otherwise it returns the error
  of the conversion); with neither specification it produces nothing. Of the autoscaler
  produced for a Stack that is being prescaled, \<^verbatim>\<open>minReplicas\<close> is set and at least the
  prescaling replicas: it is exactly the prescaling replicas when the configured
  \<^verbatim>\<open>minReplicas\<close> is unset or below them, and the configured value otherwise. For a Stack
  that is not being prescaled it is the configured \<^verbatim>\<open>minReplicas\<close>, unchanged.
\<close>

theorem GenerateHPA_minReplicas:
  "(case AutoscalerSpec (stack_Spec (Stack sc)) of
      Some a \<Rightarrow>
        (case convertCustomMetrics ext (stacksetName sc) (sc_Name sc) (as_Metrics a) of
           Inl err \<Rightarrow> GenerateHPA ext sc = Inl (errExternal err)
         | Inr converted \<Rightarrow> (\<exists>hpa. GenerateHPA ext sc = Inr (Some hpa)))
    | None \<Rightarrow>
        (case HorizontalPodAutoscalerSpec (stack_Spec (Stack sc)) of
           Some h \<Rightarrow> (\<exists>hpa. GenerateHPA ext sc = Inr (Some hpa))
         | None \<Rightarrow> GenerateHPA ext sc = Inr None)) \<and>
   (\<forall>hpa. GenerateHPA ext sc = Inr (Some hpa) \<longrightarrow>
      (prescalingActive sc \<longrightarrow>
         (\<exists>m. MinReplicas hpa = Some m \<and> sint (prescalingReplicas sc) \<le> sint m) \<and>
         (MinReplicas hpa =
            (case configuredMinReplicas sc of
               None \<Rightarrow> Some (prescalingReplicas sc)
             | Some c \<Rightarrow> if sint c < sint (prescalingReplicas sc)
                         then Some (prescalingReplicas sc) else Some c))) \<and>
      (\<not> prescalingActive sc \<longrightarrow> MinReplicas hpa = configuredMinReplicas sc))"
  using GenerateHPA_produced [where sc = sc and ext = ext]
    GenerateHPA_clamp [where sc = sc and ext = ext] by blast

text \<open>
  For \<open>exampleAutoscaledStack\<close> an autoscaler is produced and the configured minimum of 3
  is raised to the 5 replicas of the prescaling; for \<open>exampleAutoscalerStack\<close>, which is
  not being prescaled, an autoscaler is produced with the configured minimum of 2.
\<close>

theorem GenerateHPA_minReplicas_witness:
  "(case GenerateHPA exampleExternals exampleAutoscaledStack of
      Inr (Some hpa) \<Rightarrow> MinReplicas hpa = Some 5
    | _ \<Rightarrow> False) \<and>
   (case GenerateHPA exampleExternals exampleAutoscalerStack of
      Inr (Some hpa) \<Rightarrow> MinReplicas hpa = Some 2
    | _ \<Rightarrow> False)"
proof -
  note raw = GenerateHPA_minReplicas [where sc = exampleAutoscaledStack and ext = exampleExternals]
  note auto = GenerateHPA_minReplicas [where sc = exampleAutoscalerStack and ext = exampleExternals]
  have specs: "AutoscalerSpec (stack_Spec (Stack exampleAutoscaledStack)) = None"
    "HorizontalPodAutoscalerSpec (stack_Spec (Stack exampleAutoscaledStack)) =
       Some \<lparr>hpa_ObjectMeta = zeroObjectMeta, hpa_MinReplicas = Some 3,
             hpa_MaxReplicas = 10, hpa_Metrics = []\<rparr>"
    "AutoscalerSpec (stack_Spec (Stack exampleAutoscalerStack)) =
       Some \<lparr>as_MinReplicas = Some 2, as_MaxReplicas = 10, as_Metrics = []\<rparr>"
    by (simp_all add: exampleAutoscaledStack_def exampleAutoscalerStack_def zeroStackSpec_def)
  have conv: "convertCustomMetrics exampleExternals x y z = Inr ([], Map.empty)" for x y z
    by (simp add: exampleExternals_def)
  from raw have "\<exists>hpa. GenerateHPA exampleExternals exampleAutoscaledStack = Inr (Some hpa)"
    by (simp add: specs)
  then obtain hpa where
    h: "GenerateHPA exampleExternals exampleAutoscaledStack = Inr (Some hpa)" ..
  from auto have "\<exists>hpa. GenerateHPA exampleExternals exampleAutoscalerStack = Inr (Some hpa)"
    by (simp add: specs conv)
  then obtain hpa' where
    h': "GenerateHPA exampleExternals exampleAutoscalerStack = Inr (Some hpa')" ..
  have c: "configuredMinReplicas exampleAutoscaledStack = Some 3"
    "configuredMinReplicas exampleAutoscalerStack = Some 2"
    by (simp_all add: configuredMinReplicas_def specs)
  have p: "prescalingActive exampleAutoscaledStack" "prescalingReplicas exampleAutoscaledStack = 5"
    "\<not> prescalingActive exampleAutoscalerStack"
    by (simp_all add: exampleAutoscaledStack_def exampleAutoscalerStack_def exampleStack_def
        zeroStackContainer_def)
  from raw h have "MinReplicas hpa = Some 5"
    by (simp add: c p)
  moreover from auto h' have "MinReplicas hpa' = Some 2"
    by (simp add: c p)
  ultimately show ?thesis using h h' by simp
qed

section \<open>Selector and template labels of the deployment\<close>

text \<open>
  C8, as the claim states it, fails: the pod template of \<open>overridingStack\<close> sets
  \<open>stackset\<close> to \<open>bar\<close>, the label is not overwritten, and the selector still asks for
  \<open>stackset = foo\<close>; the selector labels are not among the labels of the template.
\<close>

theorem GenerateDeployment_selector_counterexample:
  "dep_MatchLabels (GenerateDeployment exampleExternals 0 overridingStack) ''stackset'' = Some ''foo'' \<and>
   Labels (pt_ObjectMeta (dep_Template (GenerateDeployment exampleExternals 0 overridingStack)))
     ''stackset'' = Some ''bar'' \<and>
   \<not> (dep_MatchLabels (GenerateDeployment exampleExternals 0 overridingStack)
        \<subseteq>\<^sub>m Labels (pt_ObjectMeta (dep_Template (GenerateDeployment exampleExternals 0 overridingStack))))"
proof -
  let ?d = "GenerateDeployment exampleExternals 0 overridingStack"
  have a: "dep_MatchLabels ?d ''stackset'' = Some ''foo''"
    by (simp add: GenerateDeployment_def Let_def limitLabels_def selectorLabels_keys
        overridingStack_def)
  have b: "Labels (pt_ObjectMeta (dep_Template ?d)) ''stackset'' = Some ''bar''"
    by (simp add: GenerateDeployment_def Let_def templateInjectLabels_def
        PodTemplateSpec_DeepCopy_def overridingStack_def zeroStackSpec_def)
  have "\<not> (dep_MatchLabels ?d \<subseteq>\<^sub>m Labels (pt_ObjectMeta (dep_Template ?d)))"
  proof
    assume "dep_MatchLabels ?d \<subseteq>\<^sub>m Labels (pt_ObjectMeta (dep_Template ?d))"
    then have "dep_MatchLabels ?d ''stackset'' = Labels (pt_ObjectMeta (dep_Template ?d)) ''stackset''"
      using a by (auto simp: map_le_def dom_def)
    with a b show False by simp
  qed
  with a b show ?thesis by simp
qed

text \<open>
  C8, amended. The selector of the generated deployment is the Stack's labels restricted to
  the keys \<open>stackset\<close> and \<open>stack-version\<close>. The labels of the generated pod template are
  the template's own labels, and the Stack's labels for the keys that the template does not
  set. So the selector labels are among the labels of the generated template exactly when
  the pod template sets neither of the two keys to a value other than the Stack's.
\<close>

theorem GenerateDeployment_selector_labels:
  fixes sc :: StackContainer
  defines "stackLabels \<equiv> Labels (stack_ObjectMeta (Stack sc))"
    and "ownLabels \<equiv> Labels (pt_ObjectMeta (PodTemplate (stack_Spec (Stack sc))))"
  shows
    "dep_MatchLabels (GenerateDeployment ext now sc) = stackLabels |` {''stackset'', ''stack-version''} \<and>
     Labels (pt_ObjectMeta (dep_Template (GenerateDeployment ext now sc))) = stackLabels ++ ownLabels \<and>
     (dep_MatchLabels (GenerateDeployment ext now sc)
        \<subseteq>\<^sub>m Labels (pt_ObjectMeta (dep_Template (GenerateDeployment ext now sc)))
      \<longleftrightarrow> (\<forall>k \<in> {''stackset'', ''stack-version''}. \<forall>v. stackLabels k = Some v \<longrightarrow>
             ownLabels k = None \<or> ownLabels k = Some v))"
proof -
  have a: "dep_MatchLabels (GenerateDeployment ext now sc)
      = stackLabels |` {''stackset'', ''stack-version''}"
    by (simp add: GenerateDeployment_def Let_def limitLabels_def selectorLabels_keys
        restrict_map_def stackLabels_def)
  have b: "Labels (pt_ObjectMeta (dep_Template (GenerateDeployment ext now sc)))
      = stackLabels ++ ownLabels"
    by (auto simp add: GenerateDeployment_def Let_def templateInjectLabels_def
        PodTemplateSpec_DeepCopy_def map_add_def stackLabels_def ownLabels_def fun_eq_iff
        split: option.splits)
  show ?thesis
    unfolding a b using restrict_le_add_iff [of stackLabels _ ownLabels] by simp
qed

text \<open>
  The pod template of \<open>labelledStack\<close> sets only \<open>app\<close>: it keeps that label, inherits
  the two selector labels, and the selector labels are among its labels.
\<close>

theorem GenerateDeployment_selector_labels_witness:
  "Labels (pt_ObjectMeta (dep_Template (GenerateDeployment exampleExternals 0 labelledStack)))
     = [''stackset'' \<mapsto> ''foo'', ''stack-version'' \<mapsto> ''v1''] ++ [''app'' \<mapsto> ''web''] \<and>
   dep_MatchLabels (GenerateDeployment exampleExternals 0 labelledStack)
     \<subseteq>\<^sub>m Labels (pt_ObjectMeta (dep_Template (GenerateDeployment exampleExternals 0 labelledStack)))"
proof -
  have own: "Labels (pt_ObjectMeta (PodTemplate (stack_Spec (Stack labelledStack))))
      = [''app'' \<mapsto> ''web'']"
    by (simp add: labelledStack_def zeroStackSpec_def)
  have st: "Labels (stack_ObjectMeta (Stack labelledStack))
      = [''stackset'' \<mapsto> ''foo'', ''stack-version'' \<mapsto> ''v1'']"
    by (simp add: labelledStack_def)
  note t = GenerateDeployment_selector_labels [of exampleExternals 0 labelledStack,
      unfolded own st]
  have "\<forall>k \<in> {''stackset'', ''stack-version''}. \<forall>v.
      [''stackset'' \<mapsto> ''foo'', ''stack-version'' \<mapsto> ''v1''] k = Some v \<longrightarrow>
      [''app'' \<mapsto> ''web''] k = None \<or> [''app'' \<mapsto> ''web''] k = Some v"
    by simp
  with t show ?thesis by blast
qed

section \<open>Generators without their section of the specification\<close>

text \<open>
  C10. A generator whose section is absent returns no object and no error: the shared
  ingress when the StackSet has no ingress specification (so the no-paths error needs an
  ingress specification, whatever the weights of the Stacks), the ingress of a Stack when
  the container has no ingress specification, and the autoscaler when the Stack has neither
  an autoscaler nor a horizontal pod autoscaler specification.
\<close>

theorem generators_absent_section:
  "(Ingress (ss_Spec (StackSet ssc)) = None \<longrightarrow> ssc_GenerateIngress ext ssc = Inr None) \<and>
   (ssc_GenerateIngress ext ssc = Inl errNoPaths \<longrightarrow> Ingress (ss_Spec (StackSet ssc)) \<noteq> None) \<and>
   (ingressSpec sc = None \<longrightarrow> sc_GenerateIngress ext sc = Inr None) \<and>
   (AutoscalerSpec (stack_Spec (Stack sc)) = None \<and>
      HorizontalPodAutoscalerSpec (stack_Spec (Stack sc)) = None \<longrightarrow>
      GenerateHPA ext sc = Inr None)"
  using ssc_GenerateIngress_no_spec [of ssc ext] sc_GenerateIngress_no_spec [of sc ext]
    GenerateHPA_no_spec [of sc ext]
  by (cases "Ingress (ss_Spec (StackSet ssc))") auto

text \<open>
  A StackSet without an ingress specification whose only Stack serves all the traffic, and
  a Stack without ingress and autoscaler specifications.
\<close>

theorem generators_absent_section_witness:
  "ssc_GenerateIngress exampleExternals
      \<lparr>StackSet = exampleStackSet,
       StackContainers = [(exampleStack ''foo-v1'' 1)\<lparr>actualTrafficWeight := Finite 100\<rparr>]\<rparr>
     = Inr None \<and>
   sc_GenerateIngress exampleExternals (exampleStack ''foo-v1'' 1) = Inr None \<and>
   GenerateHPA exampleExternals (exampleStack ''foo-v1'' 1) = Inr None"
  using generators_absent_section
    [of "\<lparr>StackSet = exampleStackSet,
          StackContainers = [(exampleStack ''foo-v1'' 1)\<lparr>actualTrafficWeight := Finite 100\<rparr>]\<rparr>"
      exampleExternals "exampleStack ''foo-v1'' 1"]
  by (simp add: exampleStackSet_def zeroStackSet_def exampleStack_def zeroStackContainer_def
      zeroStackSpec_def)

section \<open>The ports of the service\<close>

lemma decimal_digit: "n < 10 \<Longrightarrow> decimal n = [digitChar n]"
  by (simp add: decimal.simps)

lemma servicePortOfContainerPort_spec:
  "servicePortOfContainerPort i j port = spec_synthesizedPort i j port"
  by (simp add: servicePortOfContainerPort_def spec_synthesizedPort_def ProtocolTCP_def Let_def)

text \<open>The two loops append, port by port, what the comprehension lists.\<close>

lemma containerPorts_loop_eq:
  "containerPorts_loop i j ps ports =
     ports @ map (\<lambda>(j, port). spec_synthesizedPort i j port) (enumerate j ps)"
  by (induction ps arbitrary: j ports) (simp_all add: servicePortOfContainerPort_spec)

lemma containers_loop_eq:
  "containers_loop i cs ports =
     ports @ concat (map (\<lambda>(i, container).
                map (\<lambda>(j, port). spec_synthesizedPort i j port)
                  (enumerate 0 (c_Ports container)))
              (enumerate i cs))"
  by (induction cs arbitrary: i ports) (simp_all add: containerPorts_loop_eq)

lemma servicePortsFromContainers_spec:
  "servicePortsFromContainers containers = spec_synthesizedPorts containers"
  by (simp add: servicePortsFromContainers_def spec_synthesizedPorts_def containers_loop_eq)

lemma portMatches_spec: "portMatches bp port = spec_matchesBackendPort bp port"
  by (cases bp) (simp_all add: spec_matchesBackendPort_def)

lemma anyPortMatches_iff:
  "anyPortMatches bp ports \<longleftrightarrow> (\<exists>port \<in> set ports. spec_matchesBackendPort bp port)"
  by (induction ports) (simp_all add: portMatches_spec)

lemma getServicePorts_eq:
  "getServicePorts stackSpec backendPort =
     (case backendPort of
        None \<Rightarrow> Inr (chosenServicePorts stackSpec)
      | Some bp \<Rightarrow>
          if \<exists>port \<in> set (chosenServicePorts stackSpec). spec_matchesBackendPort bp port
          then Inr (chosenServicePorts stackSpec)
          else Inl (errNoMatchingPort (IntOrString_String bp)))"
proof -
  have "(case Service stackSpec of
           None \<Rightarrow> servicePortsFromContainers (Containers (pt_Spec (PodTemplate stackSpec)))
         | Some service \<Rightarrow>
             if length (Ports service) = 0
             then servicePortsFromContainers (Containers (pt_Spec (PodTemplate stackSpec)))
             else Ports service) = chosenServicePorts stackSpec"
    by (simp add: chosenServicePorts_def servicePortsFromContainers_spec split: option.splits)
  then show ?thesis
    by (simp add: getServicePorts_def anyPortMatches_iff split: option.splits)
qed

text \<open>
  C5, as the claim states it, fails: \<open>emptyServiceStack\<close> has an autoscaler specification
  and a service block, the block lists no port, and the service is generated with the port
  synthesized from the container, not with the (empty) list of the block.
\<close>

theorem GenerateService_ports_counterexample:
  "IsAutoscaled emptyServiceStack \<and>
   Service (stack_Spec (Stack emptyServiceStack))
     = Some \<lparr>svc_ObjectMeta = zeroObjectMeta, Ports = []\<rparr> \<and>
   GenerateService exampleExternals emptyServiceStack =
     Inr \<lparr>service_ObjectMeta = resourceMeta exampleExternals emptyServiceStack,
          service_Selector = Map.empty,
          service_Type = ''ClusterIP'',
          service_Ports =
            [\<lparr>sp_Name = ''port-0-0'', sp_Protocol = ''TCP'', sp_Port = 8080,
              sp_TargetPort = IntVal 8080, sp_NodePort = 0\<rparr>]\<rparr>"
  by (simp add: IsAutoscaled_def emptyServiceStack_def GenerateService_def getServicePorts_def
      servicePortsFromContainers_def servicePortOfContainerPort_def decimal_digit digitChar_def
      ProtocolTCP_def ServiceTypeClusterIP_def limitLabels_def exampleStack_def
      zeroStackContainer_def zeroObjectMeta_def Let_def)

text \<open>
  C5, amended. For every StackContainer, with or without an autoscaler specification, the
  ports of the service are \<open>chosenServicePorts\<close>: those of the service block of the Stack
  when the block is there and lists at least one port; otherwise, the block being absent or
  without ports, one port per container port, named \<open>port-i-j\<close> unless the container port
  has a name, with TCP unless the container port has a protocol, and with the container port
  as port and target port. Without an ingress the generation succeeds with these ports.
  With an ingress it succeeds, with these ports, exactly when one of them matches the
  backend port, by integer port or by name according to the kind of the backend port, and
  fails with the port-mismatch error otherwise.
\<close>

theorem GenerateService_ports:
  fixes sc :: StackContainer
  defines "ports \<equiv> chosenServicePorts (stack_Spec (Stack sc))"
  shows
    "(ingressSpec sc = None \<longrightarrow>
        (\<exists>service. GenerateService ext sc = Inr service \<and> service_Ports service = ports)) \<and>
     (\<forall>ingress. ingressSpec sc = Some ingress \<longrightarrow>
        (if \<exists>port \<in> set ports. spec_matchesBackendPort (BackendPort ingress) port
         then \<exists>service. GenerateService ext sc = Inr service \<and> service_Ports service = ports
         else GenerateService ext sc
                = Inl (errNoMatchingPort (IntOrString_String (BackendPort ingress)))))"
  by (auto simp: GenerateService_def getServicePorts_eq ports_def)

text \<open>
  The service of \<open>servedStack\<close> has the port of the service block, which the backend port
  80 of the ingress matches.
\<close>

theorem GenerateService_ports_witness:
  "map_sum id service_Ports (GenerateService exampleExternals servedStack) = Inr [httpPort]"
proof -
  have ing: "ingressSpec servedStack = Some exampleIngressSpec"
    by (simp add: servedStack_def)
  have ports: "chosenServicePorts (stack_Spec (Stack servedStack)) = [httpPort]"
    by (simp add: chosenServicePorts_def servedStack_def zeroStackSpec_def)
  have "\<exists>port \<in> set [httpPort]. spec_matchesBackendPort (BackendPort exampleIngressSpec) port"
    by (simp add: spec_matchesBackendPort_def exampleIngressSpec_def httpPort_def)
  with GenerateService_ports [of servedStack exampleExternals] ing ports
  obtain service where "GenerateService exampleExternals servedStack = Inr service"
    and "service_Ports service = [httpPort]"
    by auto
  then show ?thesis by simp
qed

section \<open>The new Stack\<close>

text \<open>The loop of \<^verbatim>\<open>sanitizeServicePorts\<close> rewrites the ports one index after the other.\<close>

lemma sanitizeServicePorts_loop_eq:
  "rest = drop i ports \<Longrightarrow>
   sanitizeServicePorts_loop i rest ports = take i ports @ map spec_defaultProtocol rest"
proof (induction rest arbitrary: i ports)
  case Nil
  then show ?case by simp
next
  case (Cons port rest)
  let ?ports' =
    "ports[i := (if sp_Protocol port = '''' then port\<lparr>sp_Protocol := ProtocolTCP\<rparr> else port)]"
  from Cons.prems have i: "i < length ports"
    by (metis drop_eq_Nil2 list.distinct(1) not_le)
  from Cons.prems have rest: "rest = drop (Suc i) ?ports'"
    by (metis drop_Suc drop_update_cancel lessI list.sel(3) tl_drop)
  have tk: "take (Suc i) ?ports' = take i ports @ [spec_defaultProtocol port]"
    using i by (simp add: take_Suc_conv_app_nth spec_defaultProtocol_def ProtocolTCP_def)
  show ?case
    using Cons.IH [OF rest] tk by simp
qed

lemma sanitizeServicePorts_eq:
  "sanitizeServicePorts service = service\<lparr>Ports := map spec_defaultProtocol (Ports service)\<rparr>"
  using sanitizeServicePorts_loop_eq [of "Ports service" 0 "Ports service"]
  by (simp add: sanitizeServicePorts_def)

lemma stackByName_loop_None:
  "stackByName_loop scs name = None \<longleftrightarrow> (\<forall>sc \<in> set scs. sc_Name sc \<noteq> name)"
  by (induction scs) auto

text \<open>
  What \<^verbatim>\<open>NewStack\<close> leaves behind: when it returns a Stack, the service block of the
  template of the StackSet has been rewritten in place.
\<close>

lemma NewStack_state:
  "snd (NewStack ext ssc) =
     (if fst (fst (NewStack ext ssc)) = None then ssc
      else ssc\<lparr>StackSet :=
             templateService_store
               (map_option
                  (\<lambda>service. service\<lparr>Ports := map spec_defaultProtocol (Ports service)\<rparr>)
                  (templateService (StackSet ssc)))
               (StackSet ssc)\<rparr>)"
  by (auto simp: NewStack_def Let_def sanitizeServicePorts_eq split: option.splits)

text \<open>
  C1. With \<open>version\<close> the version string of the template, \<open>01\<close> when it is empty, and
  \<open>name\<close> the name of the StackSet, a dash and the version: \<^verbatim>\<open>NewStack\<close> returns a new
  Stack exactly when no Stack of the working set is called \<open>name\<close> and the observed stack
  version of the status differs from \<open>version\<close>. The Stack returned has that name, the
  namespace of the StackSet, one owner reference, to the StackSet, and as specification the
  template with TCP as the protocol of every service port that names none. In every other
  case \<^verbatim>\<open>NewStack\<close> returns nothing: no Stack and the empty version.
\<close>

theorem NewStack_decision:
  fixes ssc :: StackSetContainer
  defines "stackset \<equiv> StackSet ssc"
  defines "template \<equiv> tmpl_StackSpec (st_Spec (StackTemplate (ss_Spec stackset)))"
  defines "version \<equiv>
    (if Version (st_Spec (StackTemplate (ss_Spec stackset))) = '''' then ''01''
     else Version (st_Spec (StackTemplate (ss_Spec stackset))))"
  defines "name \<equiv> Name (ss_ObjectMeta stackset) @ ''-'' @ version"
  defines "create \<equiv>
    (\<forall>sc \<in> set (StackContainers ssc). sc_Name sc \<noteq> name) \<and>
    ObservedStackVersion (ss_Status stackset) \<noteq> version"
  shows
    "(create \<longrightarrow>
        (\<exists>sc. fst (NewStack ext ssc) = (Some sc, version) \<and>
           Name (stack_ObjectMeta (Stack sc)) = name \<and>
           Namespace (stack_ObjectMeta (Stack sc)) = Namespace (ss_ObjectMeta stackset) \<and>
           OwnerReferences (stack_ObjectMeta (Stack sc)) =
             [\<lparr>ref_APIVersion = APIVersion (ss_TypeMeta stackset),
               ref_Kind = Kind (ss_TypeMeta stackset),
               ref_Name = Name (ss_ObjectMeta stackset),
               ref_UID = UID (ss_ObjectMeta stackset)\<rparr>] \<and>
           stack_Spec (Stack sc) =
             template\<lparr>Service :=
               map_option
                 (\<lambda>service. service\<lparr>Ports := map spec_defaultProtocol (Ports service)\<rparr>)
                 (Service template)\<rparr>)) \<and>
     (\<not> create \<longrightarrow> fst (NewStack ext ssc) = (None, ''''))"
proof -
  have v: "currentStackVersion stackset = version"
    by (simp add: currentStackVersion_def version_def defaultVersion_def Let_def)
  have n: "generateStackName stackset version = name"
    by (simp add: generateStackName_def name_def)
  have c: "(stackByName ssc name = None \<and> ObservedStackVersion (ss_Status stackset) \<noteq> version)
      = create"
    by (simp add: stackByName_def stackByName_loop_None create_def)
  show ?thesis
  proof (cases create)
    case True
    with c have "stackByName ssc name = None"
      and "ObservedStackVersion (ss_Status stackset) \<noteq> version"
      by simp_all
    then show ?thesis
      using True v n
      apply (simp add: NewStack_def Let_def stackset_def [symmetric])
      apply (cases "templateService stackset")
       apply (simp_all add: templateService_def templateService_store_def template_def
          sanitizeServicePorts_eq)
      done
  next
    case False
    with c have
      "\<not> (stackByName ssc name = None \<and> ObservedStackVersion (ss_Status stackset) \<noteq> version)"
      by simp
    then show ?thesis
      using False v n by (simp add: NewStack_def Let_def stackset_def [symmetric])
  qed
qed

text \<open>
  The fresh StackSet \<open>foo\<close> with version \<open>v1\<close> and no Stacks gets the Stack \<open>foo-v1\<close> in
  its namespace \<open>bar\<close>; once \<open>v1\<close> has been observed, nothing is returned.
\<close>

theorem NewStack_decision_witness:
  "map_option
     (\<lambda>sc. (Name (stack_ObjectMeta (Stack sc)), Namespace (stack_ObjectMeta (Stack sc))))
     (fst (fst (NewStack exampleExternals \<lparr>StackSet = freshStackSet, StackContainers = []\<rparr>)))
     = Some (''foo-v1'', ''bar'') \<and>
   fst (NewStack exampleExternals
          \<lparr>StackSet =
             freshStackSet\<lparr>ss_Status := (ss_Status freshStackSet)\<lparr>ObservedStackVersion := ''v1''\<rparr>\<rparr>,
           StackContainers = []\<rparr>) = (None, '''')"
proof -
  let ?fresh = "\<lparr>StackSet = freshStackSet, StackContainers = []\<rparr>"
  let ?seen =
    "\<lparr>StackSet =
        freshStackSet\<lparr>ss_Status := (ss_Status freshStackSet)\<lparr>ObservedStackVersion := ''v1''\<rparr>\<rparr>,
      StackContainers = []\<rparr>"
  have a: "map_option
     (\<lambda>sc. (Name (stack_ObjectMeta (Stack sc)), Namespace (stack_ObjectMeta (Stack sc))))
     (fst (fst (NewStack exampleExternals ?fresh))) = Some (''foo-v1'', ''bar'')"
    using NewStack_decision [of ?fresh exampleExternals]
    by (auto simp: freshStackSet_def exampleStackSet_def zeroStackSet_def zeroObjectMeta_def)
  have b: "fst (NewStack exampleExternals ?seen) = (None, '''')"
    using NewStack_decision [of ?seen exampleExternals]
    by (simp add: freshStackSet_def exampleStackSet_def zeroStackSet_def zeroObjectMeta_def)
  from a b show ?thesis by simp
qed

section \<open>What the operations write into their inputs\<close>

text \<open>
  C9. \<^verbatim>\<open>GenerateDeployment\<close> injects the labels into a deep copy of the pod template, and
  the Stack it was given stays as it was. \<^verbatim>\<open>NewStack\<close> does not copy: for the fresh
  StackSet \<open>foo\<close>, whose template has a service port without a protocol, the call returns
  the Stack \<open>foo-v1\<close> and leaves the StackSet of the working set with the protocol of that
  port set to TCP, so the working set after the call is not the one before it.
\<close>

theorem NewStack_writes_into_StackSet:
  "templateService freshStackSet =
     Some \<lparr>svc_ObjectMeta = zeroObjectMeta,
           Ports = [\<lparr>sp_Name = ''http'', sp_Protocol = '''', sp_Port = 80,
                     sp_TargetPort = IntVal 8080, sp_NodePort = 0\<rparr>]\<rparr> \<and>
   templateService (StackSet (snd (NewStack exampleExternals
       \<lparr>StackSet = freshStackSet, StackContainers = []\<rparr>))) =
     Some \<lparr>svc_ObjectMeta = zeroObjectMeta,
           Ports = [\<lparr>sp_Name = ''http'', sp_Protocol = ''TCP'', sp_Port = 80,
                     sp_TargetPort = IntVal 8080, sp_NodePort = 0\<rparr>]\<rparr> \<and>
   snd (NewStack exampleExternals \<lparr>StackSet = freshStackSet, StackContainers = []\<rparr>)
     \<noteq> \<lparr>StackSet = freshStackSet, StackContainers = []\<rparr>"
proof -
  let ?fresh = "\<lparr>StackSet = freshStackSet, StackContainers = []\<rparr>"
  have a: "templateService freshStackSet =
     Some \<lparr>svc_ObjectMeta = zeroObjectMeta,
           Ports = [\<lparr>sp_Name = ''http'', sp_Protocol = '''', sp_Port = 80,
                     sp_TargetPort = IntVal 8080, sp_NodePort = 0\<rparr>]\<rparr>"
    by (simp add: templateService_def freshStackSet_def exampleStackSet_def zeroStackSet_def
        zeroStackSpec_def)
  have b: "templateService (StackSet (snd (NewStack exampleExternals ?fresh))) =
     Some \<lparr>svc_ObjectMeta = zeroObjectMeta,
           Ports = [\<lparr>sp_Name = ''http'', sp_Protocol = ''TCP'', sp_Port = 80,
                     sp_TargetPort = IntVal 8080, sp_NodePort = 0\<rparr>]\<rparr>"
    by (simp add: NewStack_def Let_def currentStackVersion_def generateStackName_def
        stackByName_def a templateService_store_def sanitizeServicePorts_def ProtocolTCP_def
        freshStackSet_def exampleStackSet_def zeroStackSet_def zeroStackSpec_def
        templateService_def)
  have "snd (NewStack exampleExternals ?fresh) \<noteq> ?fresh"
  proof
    assume "snd (NewStack exampleExternals ?fresh) = ?fresh"
    then have "templateService (StackSet (snd (NewStack exampleExternals ?fresh)))
      = templateService freshStackSet" by simp
    with a b show False by simp
  qed
  with a b show ?thesis by simp
qed

section \<open>The garbage collection of Stacks\<close>

text \<open>The candidates are the positions of the containers that qualify, in order.\<close>

lemma gcCandidates_loop_eq:
  "gcCandidates_loop now rest p acc =
     acc @ filter (\<lambda>q. isGcCandidate now (rest ! (q - p))) [p..<p + length rest]"
proof (induction rest arbitrary: p acc)
  case Nil
  then show ?case by simp
next
  case (Cons sc rest)
  have shift: "filter (\<lambda>q. isGcCandidate now ((sc # rest) ! (q - p))) [Suc p..<Suc p + length rest]
      = filter (\<lambda>q. isGcCandidate now (rest ! (q - Suc p))) [Suc p..<Suc p + length rest]"
  proof (rule filter_cong [OF refl])
    fix q assume "q \<in> set [Suc p..<Suc p + length rest]"
    then have "q - p = Suc (q - Suc p)" by auto
    then show "isGcCandidate now ((sc # rest) ! (q - p)) = isGcCandidate now (rest ! (q - Suc p))"
      by simp
  qed
  have "[p..<p + length (sc # rest)] = p # [Suc p..<Suc p + length rest]"
    by (subst upt_rec) simp
  then show ?case
    using Cons.IH [of "Suc p"] shift by simp
qed

lemma gcCandidates_eq:
  "gcCandidates_loop now scs 0 [] = filter (\<lambda>q. isGcCandidate now (scs ! q)) [0..<length scs]"
  by (simp add: gcCandidates_loop_eq)

lemma markPendingRemoval_length [simp]:
  "length (markPendingRemoval ps scs) = length scs"
  by (induction ps arbitrary: scs) simp_all

lemma markPendingRemoval_nth:
  "q < length scs \<Longrightarrow>
   markPendingRemoval ps scs ! q =
     (if q \<in> set ps then (scs ! q)\<lparr>PendingRemoval := True\<rparr> else scs ! q)"
proof (induction ps arbitrary: scs)
  case Nil
  then show ?case by simp
next
  case (Cons p ps)
  let ?scs' = "scs[p := (scs ! p)\<lparr>PendingRemoval := True\<rparr>]"
  from Cons.prems have q: "q < length ?scs'" by simp
  show ?case
  proof (cases "p < length scs")
    case True
    then show ?thesis
      using Cons.IH [OF q] Cons.prems by (auto simp: nth_list_update)
  next
    case False
    then have "?scs' = scs" by (simp add: not_less list_update_beyond)
    moreover from False Cons.prems have "q \<noteq> p" by auto
    ultimately show ?thesis
      using Cons.IH [of scs] Cons.prems by auto
  qed
qed

lemma HasTraffic_marked [simp]: "HasTraffic (sc\<lparr>PendingRemoval := True\<rparr>) = HasTraffic sc"
  by (simp add: HasTraffic_def)

lemma ScaledDown_no_traffic: "ScaledDown now sc \<Longrightarrow> \<not> HasTraffic sc"
  by (simp add: ScaledDown_def)

text \<open>What the call leaves: the containers at some candidate positions marked.\<close>

lemma MarkExpiredStacks_marks:
  assumes perm: "\<And>lt xs. mset (sortSlice lt xs) = mset xs"
  shows "\<exists>marked. set marked \<subseteq> set (gcCandidates_loop now (StackContainers ssc) 0 []) \<and>
     snd (MarkExpiredStacks sortSlice now ssc) =
       ssc\<lparr>StackContainers := markPendingRemoval marked (StackContainers ssc)\<rparr>"
proof -
  let ?gc = "gcCandidates_loop now (StackContainers ssc) 0 []"
  let ?sorted = "sortSlice (createdBefore (StackContainers ssc)) ?gc"
  have s: "set ?sorted = set ?gc"
    using perm [of "createdBefore (StackContainers ssc)" ?gc] by (metis set_mset_mset)
  have e: "snd (MarkExpiredStacks sortSlice now ssc) =
       ssc\<lparr>StackContainers := markPendingRemoval [] (StackContainers ssc)\<rparr> \<or>
     snd (MarkExpiredStacks sortSlice now ssc) =
       ssc\<lparr>StackContainers := markPendingRemoval ?sorted (StackContainers ssc)\<rparr> \<or>
     (\<exists>k. snd (MarkExpiredStacks sortSlice now ssc) =
       ssc\<lparr>StackContainers := markPendingRemoval (take k ?sorted) (StackContainers ssc)\<rparr>)"
    by (auto simp: MarkExpiredStacks_def Let_def)
  then show ?thesis
  proof (elim disjE exE)
    assume "snd (MarkExpiredStacks sortSlice now ssc) =
       ssc\<lparr>StackContainers := markPendingRemoval [] (StackContainers ssc)\<rparr>"
    then show ?thesis by (intro exI [of _ "[]"]) simp
  next
    assume "snd (MarkExpiredStacks sortSlice now ssc) =
       ssc\<lparr>StackContainers := markPendingRemoval ?sorted (StackContainers ssc)\<rparr>"
    then show ?thesis using s by (intro exI [of _ ?sorted]) simp
  next
    fix k assume "snd (MarkExpiredStacks sortSlice now ssc) =
       ssc\<lparr>StackContainers := markPendingRemoval (take k ?sorted) (StackContainers ssc)\<rparr>"
    moreover have "set (take k ?sorted) \<subseteq> set ?gc"
      using s set_take_subset by fastforce
    ultimately show ?thesis by (intro exI [of _ "take k ?sorted"]) simp
  qed
qed

lemma markPendingRemoval_map:
  "markPendingRemoval ps scs =
     map (\<lambda>q. if q \<in> set ps then (scs ! q)\<lparr>PendingRemoval := True\<rparr> else scs ! q)
       [0..<length scs]"
  by (rule nth_equalityI) (simp_all add: markPendingRemoval_nth)

text \<open>The insertion sort permutes its input.\<close>

lemma mset_insertBy: "mset (insertBy lt x xs) = add_mset x (mset xs)"
  by (induction xs) simp_all

lemma mset_insertionSort: "mset (insertionSort lt xs) = mset xs"
  by (induction xs) (simp_all add: mset_insertBy)

lemma set_insertBy: "set (insertBy lt x xs) = insert x (set xs)"
  by (induction xs) auto

text \<open>Called with the comparison of the creation times, it returns them in order.\<close>

lemma sorted_insertBy_createdBefore:
  "sorted_wrt (\<lambda>p q. \<not> createdBefore scs q p) xs \<Longrightarrow>
   sorted_wrt (\<lambda>p q. \<not> createdBefore scs q p) (insertBy (createdBefore scs) x xs)"
  by (induction xs) (auto simp: set_insertBy createdBefore_def)

lemma sorted_insertionSort_createdBefore:
  "sorted_wrt (\<lambda>p q. \<not> createdBefore scs q p) (insertionSort (createdBefore scs) xs)"
  by (induction xs) (simp_all add: sorted_insertBy_createdBefore)

lemma historyLimit_examples:
  "Limit (StackLifecycle (ss_Spec (stackSetWithLimit l))) = Some l"
  by (simp add: stackSetWithLimit_def)

lemma candidate_example [simp]: "isGcCandidate now (exampleStack name created)"
  by (simp add: isGcCandidate_def exampleStack_def zeroStackContainer_def)

lemma servingStack_props [simp]:
  "\<not> isGcCandidate now servingStack" "HasTraffic servingStack" "\<not> PendingRemoval servingStack"
  by (simp_all add: isGcCandidate_def servingStack_def ScaledDown_def HasTraffic_def
      exampleStack_def zeroStackContainer_def)

lemma created_example [simp]:
  "CreationTimestamp (stack_ObjectMeta (Stack (exampleStack name created))) = created"
  by (simp add: exampleStack_def zeroObjectMeta_def)

text \<open>
  The garbage collection under a limit that is not negative, for every sort that returns a
  sorted permutation: the call does not panic, leaves the StackSet alone, and marks a set
  \<open>M\<close> of candidates with \<open>max 0 (|C| - limit)\<close> members, none of them created after
  a candidate outside \<open>M\<close>; every other container stays as it was.
\<close>

lemma MarkExpiredStacks_oldest_excess:
  fixes ssc :: StackSetContainer and now :: time
  defines "scs \<equiv> StackContainers ssc"
  defines "C \<equiv> {p. p < length scs \<and> isGcCandidate now (scs ! p)}"
  assumes perm: "\<And>lt xs. mset (sortSlice lt xs) = mset xs"
    and sorted: "\<And>xs. sorted_wrt (\<lambda>p q. \<not> createdBefore scs q p) (sortSlice (createdBefore scs) xs)"
    and limit: "0 \<le> historyLimitOf ssc"
  shows "fst (MarkExpiredStacks sortSlice now ssc) = None \<and>
     StackSet (snd (MarkExpiredStacks sortSlice now ssc)) = StackSet ssc \<and>
     (\<exists>M. M \<subseteq> C \<and> int (card M) = max 0 (int (card C) - historyLimitOf ssc) \<and>
        (\<forall>p \<in> M. \<forall>q \<in> C - M. createdAt ssc p \<le> createdAt ssc q) \<and>
        StackContainers (snd (MarkExpiredStacks sortSlice now ssc)) =
          map (\<lambda>q. if q \<in> M then (scs ! q)\<lparr>PendingRemoval := True\<rparr> else scs ! q)
            [0..<length scs])"
proof -
  let ?gc = "gcCandidates_loop now scs 0 []"
  let ?sorted = "sortSlice (createdBefore scs) ?gc"
  let ?limit = "historyLimitOf ssc"
  have gc: "?gc = filter (\<lambda>q. isGcCandidate now (scs ! q)) [0..<length scs]"
    by (rule gcCandidates_eq)
  have setgc: "set ?gc = C" by (auto simp: gc C_def)
  have dgc: "distinct ?gc" by (simp add: gc)
  have cardC: "card C = length ?gc"
    using dgc setgc distinct_card by fastforce
  have lim: "(case Limit (StackLifecycle (ss_Spec (StackSet ssc))) of
        Some limit \<Rightarrow> sint limit | None \<Rightarrow> defaultStackLifecycleLimit) = ?limit"
    by (simp add: historyLimitOf_def defaultStackLifecycleLimit_def split: option.splits)
  have ms: "mset ?sorted = mset ?gc" by (rule perm)
  have sets: "set ?sorted = C" using ms setgc by (metis set_mset_mset)
  have ds: "distinct ?sorted" using ms dgc by (metis distinct_count_atmost_1 set_mset_mset)
  have len: "length ?sorted = length ?gc" using ms by (metis size_mset)
  have cap: "length ?gc \<le> length scs"
    unfolding gc using length_filter_le [of _ "[0..<length scs]"] by simp
  show ?thesis
  proof (cases "int (length ?gc) \<le> ?limit")
    case True
    then have r: "MarkExpiredStacks sortSlice now ssc = (None, ssc)"
      by (simp add: MarkExpiredStacks_def Let_def lim scs_def [symmetric])
    have "scs = map (\<lambda>q. if q \<in> {} then (scs ! q)\<lparr>PendingRemoval := True\<rparr> else scs ! q)
        [0..<length scs]"
      by (simp add: map_nth)
    with True show ?thesis
      unfolding r by (intro conjI exI [of _ "{}"]) (simp_all add: cardC scs_def)
  next
    case False
    let ?k = "nat (int (length ?gc) - ?limit)"
    let ?M = "set (take ?k ?sorted)"
    from False limit have k: "?k \<le> length ?sorted" and kpos: "int ?k = int (length ?gc) - ?limit"
      by (simp_all add: len)
    from False limit cap
    have r: "MarkExpiredStacks sortSlice now ssc =
        (None, ssc\<lparr>StackContainers := markPendingRemoval (take ?k ?sorted) scs\<rparr>)"
      by (simp add: MarkExpiredStacks_def Let_def lim scs_def [symmetric] len)
    have sub: "?M \<subseteq> C" using sets set_take_subset by fastforce
    have card: "card ?M = ?k"
      using ds k by (simp add: distinct_card)
    have rest: "C - ?M = set (drop ?k ?sorted)"
    proof -
      have "set (take ?k ?sorted) \<union> set (drop ?k ?sorted) = C"
        using sets by (metis append_take_drop_id set_append)
      moreover have "set (take ?k ?sorted) \<inter> set (drop ?k ?sorted) = {}"
        using ds by (rule set_take_disj_set_drop_if_distinct) simp
      ultimately show ?thesis by blast
    qed
    have "sorted_wrt (\<lambda>p q. \<not> createdBefore scs q p) (take ?k ?sorted @ drop ?k ?sorted)"
      using sorted [of ?gc] by simp
    then have old: "\<forall>p \<in> ?M. \<forall>q \<in> C - ?M. createdAt ssc p \<le> createdAt ssc q"
      unfolding rest sorted_wrt_append
      by (auto simp: createdBefore_def createdAt_def scs_def not_less)
    have a: "fst (MarkExpiredStacks sortSlice now ssc) = None" by (simp add: r)
    have b: "StackSet (snd (MarkExpiredStacks sortSlice now ssc)) = StackSet ssc"
      by (simp add: r)
    have c: "int (card ?M) = max 0 (int (card C) - ?limit)"
      using False by (simp add: card kpos cardC)
    have d: "StackContainers (snd (MarkExpiredStacks sortSlice now ssc)) =
        map (\<lambda>q. if q \<in> ?M then (scs ! q)\<lparr>PendingRemoval := True\<rparr> else scs ! q)
          [0..<length scs]"
      by (simp add: r markPendingRemoval_map)
    show ?thesis
      apply (intro conjI exI [of _ ?M])
           apply (fact a)
          apply (fact b)
         apply (fact sub)
        apply (fact c)
       apply (fact old)
      apply (fact d)
      done
  qed
qed

text \<open>
  With the insertion sort only the condition on the limit is left. In \<open>retentionExample\<close>,
  with two candidates and the limit 1, the older candidate is marked.
\<close>

lemma MarkExpiredStacks_oldest_excess_insertionSort:
  fixes ssc :: StackSetContainer and now :: time
  defines "scs \<equiv> StackContainers ssc"
  defines "C \<equiv> {p. p < length scs \<and> isGcCandidate now (scs ! p)}"
  assumes limit: "0 \<le> historyLimitOf ssc"
  shows "fst (MarkExpiredStacks insertionSort now ssc) = None \<and>
     StackSet (snd (MarkExpiredStacks insertionSort now ssc)) = StackSet ssc \<and>
     (\<exists>M. M \<subseteq> C \<and> int (card M) = max 0 (int (card C) - historyLimitOf ssc) \<and>
        (\<forall>p \<in> M. \<forall>q \<in> C - M. createdAt ssc p \<le> createdAt ssc q) \<and>
        StackContainers (snd (MarkExpiredStacks insertionSort now ssc)) =
          map (\<lambda>q. if q \<in> M then (scs ! q)\<lparr>PendingRemoval := True\<rparr> else scs ! q)
            [0..<length scs])"
  unfolding scs_def C_def
  by (rule MarkExpiredStacks_oldest_excess
      [where sortSlice = insertionSort and ssc = ssc and now = now,
        OF mset_insertionSort sorted_insertionSort_createdBefore limit])

lemma MarkExpiredStacks_retentionExample:
  "fst (MarkExpiredStacks insertionSort 0 retentionExample) = None \<and>
   StackContainers (snd (MarkExpiredStacks insertionSort 0 retentionExample)) =
     [(exampleStack ''foo-v1'' 1)\<lparr>PendingRemoval := True\<rparr>, exampleStack ''foo-v2'' 2, servingStack]"
  by (simp add: MarkExpiredStacks_def retentionExample_def historyLimit_examples Let_def
      createdBefore_def)

text \<open>
  C2. The claim is about every working set, and the limit is an \<^verbatim>\<open>int32\<close>. Under a
  limit that is not negative the oldest \<open>max 0 (|C| - limit)\<close> candidates are marked, as
  shown above. With the limit \<open>-1\<close> the guard \<^verbatim>\<open>len(gcCandidates) <= historyLimit\<close>
  never holds and \<open>excessStacks\<close> is the number of candidates plus one. With a single
  Stack, a candidate, the slice expression is beyond the capacity and the call panics with
  nothing marked, where the claim has the Stack marked. With a second Stack that is no
  candidate, the slice expression is within the capacity, and the call panics on the nil
  pointer after it has marked the candidate.
\<close>

theorem MarkExpiredStacks_negative_limit:
  "MarkExpiredStacks insertionSort 0 negativeLimitExample
     = (Some SliceBoundsOutOfRange, negativeLimitExample) \<and>
   MarkExpiredStacks insertionSort 0 negativeLimitServingExample
     = (Some NilPointerDereference,
        negativeLimitServingExample
          \<lparr>StackContainers :=
             [(exampleStack ''foo-v1'' 1)\<lparr>PendingRemoval := True\<rparr>, servingStack]\<rparr>)"
  by (simp add: MarkExpiredStacks_def negativeLimitExample_def negativeLimitServingExample_def
      historyLimit_examples Let_def)

text \<open>
  C7. Let the sort permute its input, and let no Stack without ingress have traffic.
  Then \<^verbatim>\<open>MarkExpiredStacks\<close> keeps the number of containers, and every container that has
  traffic after the call is exactly as it was before the call: the call has not marked it
  as pending removal. This holds for the working set that a panic leaves behind as well.
\<close>

theorem MarkExpiredStacks_keeps_traffic:
  assumes perm: "\<And>lt xs. mset (sortSlice lt xs) = mset xs"
    and inv: "\<forall>sc \<in> set (StackContainers ssc). ingressSpec sc = None \<longrightarrow> \<not> HasTraffic sc"
  shows "length (StackContainers (snd (MarkExpiredStacks sortSlice now ssc)))
           = length (StackContainers ssc) \<and>
         (\<forall>p < length (StackContainers ssc).
            HasTraffic (StackContainers (snd (MarkExpiredStacks sortSlice now ssc)) ! p) \<longrightarrow>
              StackContainers (snd (MarkExpiredStacks sortSlice now ssc)) ! p
                = StackContainers ssc ! p)"
proof -
  let ?scs = "StackContainers ssc"
  from MarkExpiredStacks_marks [OF perm, of now ssc] obtain marked
    where m: "set marked \<subseteq> set (gcCandidates_loop now ?scs 0 []) \<and>
        snd (MarkExpiredStacks sortSlice now ssc) =
          ssc\<lparr>StackContainers := markPendingRemoval marked ?scs\<rparr>" ..
  from m have sub: "set marked \<subseteq> set (gcCandidates_loop now ?scs 0 [])" ..
  from m have res: "snd (MarkExpiredStacks sortSlice now ssc) =
        ssc\<lparr>StackContainers := markPendingRemoval marked ?scs\<rparr>" ..
  have after: "StackContainers (snd (MarkExpiredStacks sortSlice now ssc))
      = markPendingRemoval marked ?scs"
    by (simp add: res)
  have quiet: "\<not> HasTraffic (?scs ! p)" if "p \<in> set marked" for p
  proof -
    from that sub have "p \<in> set (gcCandidates_loop now ?scs 0 [])" by blast
    then have p: "p < length ?scs" and c: "isGcCandidate now (?scs ! p)"
      by (simp_all add: gcCandidates_eq)
    from p have "?scs ! p \<in> set ?scs" by simp
    with inv have "ingressSpec (?scs ! p) = None \<longrightarrow> \<not> HasTraffic (?scs ! p)" by blast
    with c show ?thesis
      unfolding isGcCandidate_def using ScaledDown_no_traffic by blast
  qed
  have same: "markPendingRemoval marked ?scs ! p = ?scs ! p"
    if p: "p < length ?scs" and t: "HasTraffic (markPendingRemoval marked ?scs ! p)" for p
  proof (cases "p \<in> set marked")
    case True
    with p have "markPendingRemoval marked ?scs ! p = (?scs ! p)\<lparr>PendingRemoval := True\<rparr>"
      by (simp add: markPendingRemoval_nth)
    with t have "HasTraffic (?scs ! p)" by simp
    with quiet [OF True] show ?thesis by simp
  next
    case False
    with p show ?thesis by (simp add: markPendingRemoval_nth)
  qed
  show ?thesis
    unfolding after using same by simp
qed

text \<open>
  In \<open>retentionExample\<close> the older of the two candidates is marked, and the Stack that
  serves the traffic is not.
\<close>

theorem MarkExpiredStacks_keeps_traffic_witness:
  "HasTraffic (StackContainers (snd (MarkExpiredStacks insertionSort 0 retentionExample)) ! 2) \<and>
   \<not> PendingRemoval (StackContainers (snd (MarkExpiredStacks insertionSort 0 retentionExample)) ! 2) \<and>
   PendingRemoval (StackContainers (snd (MarkExpiredStacks insertionSort 0 retentionExample)) ! 0)"
proof -
  let ?after = "StackContainers (snd (MarkExpiredStacks insertionSort 0 retentionExample))"
  have inv: "\<forall>sc \<in> set (StackContainers retentionExample).
      ingressSpec sc = None \<longrightarrow> \<not> HasTraffic sc"
    by (simp add: retentionExample_def servingStack_def exampleStack_def zeroStackContainer_def
        HasTraffic_def)
  have run: "?after =
      [(exampleStack ''foo-v1'' 1)\<lparr>PendingRemoval := True\<rparr>, exampleStack ''foo-v2'' 2, servingStack]"
    by (simp add: MarkExpiredStacks_def retentionExample_def historyLimit_examples Let_def
        createdBefore_def)
  then have t: "HasTraffic (?after ! 2)" by simp
  have "2 < length (StackContainers retentionExample)"
    by (simp add: retentionExample_def)
  with MarkExpiredStacks_keeps_traffic [where sortSlice = insertionSort and ssc = retentionExample and now = 0, OF mset_insertionSort inv] t
  have "?after ! 2 = StackContainers retentionExample ! 2" by blast
  then have "\<not> PendingRemoval (?after ! 2)" by (simp add: retentionExample_def)
  moreover from run have "PendingRemoval (?after ! 0)" by simp
  ultimately show ?thesis using t by simp
qed

section \<open>The shared ingress\<close>

text \<open>
  The loop over the containers appends one path per Stack that serves traffic, and writes
  the two maps of positive weights.
\<close>

lemma positiveWeights_Nil [simp]: "positiveWeights weight [] = Map.empty"
  by (simp add: positiveWeights_def)

lemma positiveWeights_Cons:
  "m ++ positiveWeights weight (sc # scs) =
     (if positive (weight sc) then m(sc_Name sc \<mapsto> weight sc) else m) ++ positiveWeights weight scs"
  by (simp add: positiveWeights_def map_add_assoc [symmetric] map_add_def fun_eq_iff
      split: option.splits)

lemma sharedIngress_loop_eq:
  "sharedIngress_loop ingress scs (paths, actualWeights, desiredWeights) =
     (paths @ map (pathOf ingress) (filter (\<lambda>sc. positive (actualTrafficWeight sc)) scs),
      actualWeights ++ positiveWeights actualTrafficWeight scs,
      desiredWeights ++ positiveWeights desiredTrafficWeight scs)"
proof (induction scs arbitrary: paths actualWeights desiredWeights)
  case Nil
  then show ?case by simp
next
  case (Cons sc scs)
  show ?case
    by (simp add: Cons.IH positiveWeights_Cons pathOf_def Let_def)
qed

lemma sharedIngressRules_loop_eq:
  "sharedIngressRules_loop rule hosts rules = rules @ map (\<lambda>host. rule\<lparr>Host := host\<rparr>) hosts"
  by (induction hosts arbitrary: rules) simp_all

lemma dom_positiveWeights:
  "dom (positiveWeights weight scs) = sc_Name ` {sc \<in> set scs. positive (weight sc)}"
  by (force simp: positiveWeights_def dom_map_of_conv_image_fst image_iff)

lemma positiveWeights_value:
  assumes "distinct (map sc_Name scs)" and "sc \<in> set scs" and "positive (weight sc)"
  shows "positiveWeights weight scs (sc_Name sc) = Some (weight sc)"
proof -
  let ?xs = "map (\<lambda>sc. (sc_Name sc, weight sc)) (filter (\<lambda>sc. positive (weight sc)) scs)"
  have "map fst ?xs = map sc_Name (filter (\<lambda>sc. positive (weight sc)) scs)"
    by (simp add: comp_def)
  moreover from assms(1) have "distinct (map sc_Name (filter (\<lambda>sc. positive (weight sc)) scs))"
    by (rule distinct_map_filter)
  ultimately have "distinct (map fst ?xs)" by (simp add: comp_def)
  then have d: "distinct (map fst (rev ?xs))"
    by (simp only: rev_map [symmetric] distinct_rev)
  from assms(2,3) have "(sc_Name sc, weight sc) \<in> set (rev ?xs)" by auto
  with d show ?thesis
    unfolding positiveWeights_def by (rule map_of_is_SomeI)
qed


lemma map_sort_key: "map f (sort_key f xs) = sort (map f xs)"
  by (rule properties_for_sort [symmetric]) simp_all

lemma serviceName_pathOf: "ServiceName (Backend (pathOf ingress sc)) = sc_Name sc"
  by (simp add: pathOf_def)

lemma annotation_keys_differ: "backendWeightsAnnotationKey \<noteq> stackTrafficWeightsAnnotationKey"
  by (simp add: backendWeightsAnnotationKey_def stackTrafficWeightsAnnotationKey_def)

lemma ssc_GenerateIngress_no_paths:
  assumes "Ingress (ss_Spec (StackSet ssc)) = Some ingress"
  shows "ssc_GenerateIngress ext ssc = Inl errNoPaths \<longleftrightarrow>
     filter (\<lambda>sc. positive (actualTrafficWeight sc)) (StackContainers ssc) = []"
  using assms
  by (simp add: ssc_GenerateIngress_def sharedIngress_loop_eq Let_def split: sum.splits)

lemma ssc_GenerateIngress_result:
  assumes "Ingress (ss_Spec (StackSet ssc)) = Some ingress"
    and "ssc_GenerateIngress ext ssc = Inr (Some result)"
  shows "Rules result =
      map (\<lambda>host.
             \<lparr>Host = host,
              Paths = sort_key (\<lambda>p. ServiceName (Backend p))
                (map (pathOf ingress)
                   (filter (\<lambda>sc. positive (actualTrafficWeight sc)) (StackContainers ssc)))\<rparr>)
        (Hosts ingress)"
    and "\<exists>a d.
      jsonMarshal ext (positiveWeights actualTrafficWeight (StackContainers ssc)) = Inr a \<and>
      jsonMarshal ext (positiveWeights desiredTrafficWeight (StackContainers ssc)) = Inr d \<and>
      Annotations (ingress_ObjectMeta result) backendWeightsAnnotationKey = Some a \<and>
      Annotations (ingress_ObjectMeta result) stackTrafficWeightsAnnotationKey = Some d"
  using assms annotation_keys_differ
  by (auto simp: ssc_GenerateIngress_def sharedIngress_loop_eq sharedIngressRules_loop_eq Let_def
      split: sum.splits if_splits)

text \<open>
  The shared ingress that is returned: one rule per host, the paths of the serving Stacks
  in the order of their names, and the two annotations.
\<close>

lemma ssc_GenerateIngress_shared_result:
  fixes ssc :: StackSetContainer
  defines "stacks \<equiv> StackContainers ssc"
  defines "serving \<equiv> filter (\<lambda>sc. positive (actualTrafficWeight sc)) stacks"
  defines "wanted \<equiv> filter (\<lambda>sc. positive (desiredTrafficWeight sc)) stacks"
  assumes ing: "Ingress (ss_Spec (StackSet ssc)) = Some ingress"
  shows
    "(ssc_GenerateIngress ext ssc = Inl errNoPaths \<longleftrightarrow>
        \<not> (\<exists>sc \<in> set stacks. positive (actualTrafficWeight sc))) \<and>
     (\<forall>result. ssc_GenerateIngress ext ssc = Inr (Some result) \<longrightarrow>
        map Host (Rules result) = Hosts ingress \<and>
        (\<forall>rule \<in> set (Rules result).
           map (\<lambda>p. ServiceName (Backend p)) (Paths rule) = sort (map sc_Name serving) \<and>
           sorted (map (\<lambda>p. ServiceName (Backend p)) (Paths rule)) \<and>
           (distinct (map sc_Name stacks) \<longrightarrow>
              distinct (map (\<lambda>p. ServiceName (Backend p)) (Paths rule)))) \<and>
        (\<exists>actualWeights desiredWeights a d.
           jsonMarshal ext actualWeights = Inr a \<and>
           jsonMarshal ext desiredWeights = Inr d \<and>
           Annotations (ingress_ObjectMeta result) ''zalando.org/backend-weights'' = Some a \<and>
           Annotations (ingress_ObjectMeta result) ''zalando.org/stack-traffic-weights'' = Some d \<and>
           dom actualWeights = sc_Name ` set serving \<and>
           dom desiredWeights = sc_Name ` set wanted \<and>
           (distinct (map sc_Name stacks) \<longrightarrow>
              (\<forall>sc \<in> set serving. actualWeights (sc_Name sc) = Some (actualTrafficWeight sc)) \<and>
              (\<forall>sc \<in> set wanted. desiredWeights (sc_Name sc) = Some (desiredTrafficWeight sc)))))"
proof (intro conjI allI impI)
  show "ssc_GenerateIngress ext ssc = Inl errNoPaths \<longleftrightarrow>
        \<not> (\<exists>sc \<in> set stacks. positive (actualTrafficWeight sc))"
    unfolding ssc_GenerateIngress_no_paths [OF ing] stacks_def
    by (simp add: filter_empty_conv)
next
  fix result assume r: "ssc_GenerateIngress ext ssc = Inr (Some result)"
  let ?names = "\<lambda>rule. map (\<lambda>p. ServiceName (Backend p)) (Paths rule)"
  have rules: "Rules result =
      map (\<lambda>host. \<lparr>Host = host,
             Paths = sort_key (\<lambda>p. ServiceName (Backend p)) (map (pathOf ingress) serving)\<rparr>)
        (Hosts ingress)"
    using ssc_GenerateIngress_result(1) [OF ing r] by (simp add: serving_def stacks_def)
  show "map Host (Rules result) = Hosts ingress"
    by (simp add: rules comp_def)
  have names: "?names rule = sort (map sc_Name serving)" if "rule \<in> set (Rules result)" for rule
  proof -
    from that rules have "Paths rule =
        sort_key (\<lambda>p. ServiceName (Backend p)) (map (pathOf ingress) serving)"
      by auto
    then show ?thesis
      by (simp add: map_sort_key comp_def serviceName_pathOf)
  qed
  have dist: "distinct (sort (map sc_Name serving))" if "distinct (map sc_Name stacks)"
    using that by (simp add: serving_def distinct_map_filter)
  show "\<forall>rule \<in> set (Rules result).
           ?names rule = sort (map sc_Name serving) \<and> sorted (?names rule) \<and>
           (distinct (map sc_Name stacks) \<longrightarrow> distinct (?names rule))"
    using names dist by simp
  from ssc_GenerateIngress_result(2) [OF ing r] obtain a d where
    m: "jsonMarshal ext (positiveWeights actualTrafficWeight stacks) = Inr a \<and>
      jsonMarshal ext (positiveWeights desiredTrafficWeight stacks) = Inr d \<and>
      Annotations (ingress_ObjectMeta result) backendWeightsAnnotationKey = Some a \<and>
      Annotations (ingress_ObjectMeta result) stackTrafficWeightsAnnotationKey = Some d"
    unfolding stacks_def by blast
  have doms: "dom (positiveWeights actualTrafficWeight stacks) = sc_Name ` set serving"
    "dom (positiveWeights desiredTrafficWeight stacks) = sc_Name ` set wanted"
    by (simp_all add: dom_positiveWeights serving_def wanted_def)
  have vals: "(\<forall>sc \<in> set serving.
        positiveWeights actualTrafficWeight stacks (sc_Name sc) = Some (actualTrafficWeight sc)) \<and>
      (\<forall>sc \<in> set wanted.
        positiveWeights desiredTrafficWeight stacks (sc_Name sc) = Some (desiredTrafficWeight sc))"
    if "distinct (map sc_Name stacks)"
    using that by (simp add: serving_def wanted_def positiveWeights_value)
  show "\<exists>actualWeights desiredWeights a d.
           jsonMarshal ext actualWeights = Inr a \<and>
           jsonMarshal ext desiredWeights = Inr d \<and>
           Annotations (ingress_ObjectMeta result) ''zalando.org/backend-weights'' = Some a \<and>
           Annotations (ingress_ObjectMeta result) ''zalando.org/stack-traffic-weights'' = Some d \<and>
           dom actualWeights = sc_Name ` set serving \<and>
           dom desiredWeights = sc_Name ` set wanted \<and>
           (distinct (map sc_Name stacks) \<longrightarrow>
              (\<forall>sc \<in> set serving. actualWeights (sc_Name sc) = Some (actualTrafficWeight sc)) \<and>
              (\<forall>sc \<in> set wanted. desiredWeights (sc_Name sc) = Some (desiredTrafficWeight sc)))"
    apply (rule exI [of _ "positiveWeights actualTrafficWeight stacks"])
    apply (rule exI [of _ "positiveWeights desiredTrafficWeight stacks"])
    apply (rule exI [of _ a])
    apply (rule exI [of _ d])
    using m doms vals
    apply (simp add: backendWeightsAnnotationKey_def stackTrafficWeightsAnnotationKey_def)
    done
qed

text \<open>
  With an ingress specification something is always returned, an error or an ingress: after
  the no-paths check only the serialization of the two maps can fail.
\<close>

lemma ssc_GenerateIngress_outcome:
  assumes "Ingress (ss_Spec (StackSet ssc)) = Some ingress"
  shows "ssc_GenerateIngress ext ssc \<noteq> Inr None"
    and "filter (\<lambda>sc. positive (actualTrafficWeight sc)) (StackContainers ssc) \<noteq> [] \<Longrightarrow>
      (case jsonMarshal ext (positiveWeights actualTrafficWeight (StackContainers ssc)) of
         Inl err \<Rightarrow> ssc_GenerateIngress ext ssc = Inl (errExternal err)
       | Inr a \<Rightarrow>
           (case jsonMarshal ext (positiveWeights desiredTrafficWeight (StackContainers ssc)) of
              Inl err \<Rightarrow> ssc_GenerateIngress ext ssc = Inl (errExternal err)
            | Inr d \<Rightarrow> (\<exists>result. ssc_GenerateIngress ext ssc = Inr (Some result))))"
  using assms
  by (simp_all add: ssc_GenerateIngress_def sharedIngress_loop_eq Let_def split: sum.splits)

text \<open>
  C3. Let the StackSet have an ingress specification. The generation fails with the
  no-paths error exactly when no Stack has a positive actual weight, and it never returns
  nothing. When a Stack has a positive actual weight, it returns the error of the
  serialization if one of the two maps of weights cannot be serialized, and succeeds with an
  ingress otherwise. When it succeeds there is one rule per host; in every rule the service
  names of the paths are the names of the Stacks with a positive actual weight, one path
  per such Stack, in ascending order, and without duplicates when the names of the Stacks
  are distinct, as the data model has them. The annotation \<open>backend-weights\<close> is the
  serialization of a map whose keys are the names of the Stacks with a positive actual
  weight, and \<open>stack-traffic-weights\<close> that of a map whose keys are the names of the
  Stacks with a positive desired weight; with distinct names each of these Stacks is mapped
  to its weight. A Stack whose weight is not positive is in neither list of paths nor map.
\<close>

theorem ssc_GenerateIngress_shared:
  fixes ssc :: StackSetContainer
  defines "stacks \<equiv> StackContainers ssc"
  defines "serving \<equiv> filter (\<lambda>sc. positive (actualTrafficWeight sc)) stacks"
  defines "wanted \<equiv> filter (\<lambda>sc. positive (desiredTrafficWeight sc)) stacks"
  assumes ing: "Ingress (ss_Spec (StackSet ssc)) = Some ingress"
  shows
    "(ssc_GenerateIngress ext ssc = Inl errNoPaths \<longleftrightarrow>
        \<not> (\<exists>sc \<in> set stacks. positive (actualTrafficWeight sc))) \<and>
     ssc_GenerateIngress ext ssc \<noteq> Inr None \<and>
     ((\<exists>sc \<in> set stacks. positive (actualTrafficWeight sc)) \<longrightarrow>
        (case jsonMarshal ext (positiveWeights actualTrafficWeight stacks) of
           Inl err \<Rightarrow> ssc_GenerateIngress ext ssc = Inl (errExternal err)
         | Inr a \<Rightarrow>
             (case jsonMarshal ext (positiveWeights desiredTrafficWeight stacks) of
                Inl err \<Rightarrow> ssc_GenerateIngress ext ssc = Inl (errExternal err)
              | Inr d \<Rightarrow> (\<exists>result. ssc_GenerateIngress ext ssc = Inr (Some result))))) \<and>
     (\<forall>result. ssc_GenerateIngress ext ssc = Inr (Some result) \<longrightarrow>
        map Host (Rules result) = Hosts ingress \<and>
        (\<forall>rule \<in> set (Rules result).
           map (\<lambda>p. ServiceName (Backend p)) (Paths rule) = sort (map sc_Name serving) \<and>
           sorted (map (\<lambda>p. ServiceName (Backend p)) (Paths rule)) \<and>
           (distinct (map sc_Name stacks) \<longrightarrow>
              distinct (map (\<lambda>p. ServiceName (Backend p)) (Paths rule)))) \<and>
        (\<exists>actualWeights desiredWeights a d.
           jsonMarshal ext actualWeights = Inr a \<and>
           jsonMarshal ext desiredWeights = Inr d \<and>
           Annotations (ingress_ObjectMeta result) ''zalando.org/backend-weights'' = Some a \<and>
           Annotations (ingress_ObjectMeta result) ''zalando.org/stack-traffic-weights'' = Some d \<and>
           dom actualWeights = sc_Name ` set serving \<and>
           dom desiredWeights = sc_Name ` set wanted \<and>
           (distinct (map sc_Name stacks) \<longrightarrow>
              (\<forall>sc \<in> set serving. actualWeights (sc_Name sc) = Some (actualTrafficWeight sc)) \<and>
              (\<forall>sc \<in> set wanted. desiredWeights (sc_Name sc) = Some (desiredTrafficWeight sc)))))"
proof -
  note result = ssc_GenerateIngress_shared_result [OF ing, of ext]
  note outcome = ssc_GenerateIngress_outcome [OF ing, of ext]
  have produced: "(\<exists>sc \<in> set (StackContainers ssc). positive (actualTrafficWeight sc)) \<longrightarrow>
        (case jsonMarshal ext (positiveWeights actualTrafficWeight (StackContainers ssc)) of
           Inl err \<Rightarrow> ssc_GenerateIngress ext ssc = Inl (errExternal err)
         | Inr a \<Rightarrow>
             (case jsonMarshal ext (positiveWeights desiredTrafficWeight (StackContainers ssc)) of
                Inl err \<Rightarrow> ssc_GenerateIngress ext ssc = Inl (errExternal err)
              | Inr d \<Rightarrow> (\<exists>result. ssc_GenerateIngress ext ssc = Inr (Some result))))"
    using outcome(2) by (simp add: filter_empty_conv)
  show ?thesis
    unfolding stacks_def serving_def wanted_def
    apply (intro conjI)
       apply (rule result [THEN conjunct1])
      apply (rule outcome(1))
     apply (rule produced)
    apply (rule result [THEN conjunct2])
    done
qed

text \<open>
  The shared ingress of \<open>sharedIngressExample\<close>: in the model's rendering of the two maps,
  \<open>foo-v3\<close>, without traffic, is in neither, and \<open>foo-v2\<close>, which is to lose its
  traffic, is not among the desired weights.
\<close>

lemma sc_Name_example [simp]: "sc_Name (exampleStack name created) = name"
  by (simp add: sc_Name_def exampleStack_def zeroObjectMeta_def)

lemma weights_example [simp]:
  "actualTrafficWeight (exampleStack name created) = Finite 0"
  "desiredTrafficWeight (exampleStack name created) = Finite 0"
  by (simp_all add: exampleStack_def zeroStackContainer_def)

lemma sc_Name_weights [simp]:
  "sc_Name (sc\<lparr>ingressSpec := i\<rparr>) = sc_Name sc"
  "sc_Name (sc\<lparr>actualTrafficWeight := w\<rparr>) = sc_Name sc"
  "sc_Name (sc\<lparr>desiredTrafficWeight := w\<rparr>) = sc_Name sc"
  by (simp_all add: sc_Name_def)

lemma sharedIngressExample_annotations:
  "map_sum id (map_option (\<lambda>r.
      (Annotations (ingress_ObjectMeta r) ''zalando.org/backend-weights'',
       Annotations (ingress_ObjectMeta r) ''zalando.org/stack-traffic-weights'')))
     (ssc_GenerateIngress exampleExternals sharedIngressExample)
   = Inr (Some (Some ''foo-v1;foo-v2;'', Some ''foo-v1;''))"
  by (simp add: ssc_GenerateIngress_def sharedIngressExample_def sharedIngress_loop_eq Let_def
      positiveWeights_def exampleExternals_def exampleStackSet_def zeroStackSet_def
      backendWeightsAnnotationKey_def stackTrafficWeightsAnnotationKey_def)

text \<open>
  Its rule for \<open>example.org\<close> has the paths of \<open>foo-v1\<close> and \<open>foo-v2\<close>, in this
  order; and where the only Stack has no traffic, the generation fails with the no-paths
  error.
\<close>

theorem ssc_GenerateIngress_shared_witness:
  "(case ssc_GenerateIngress exampleExternals sharedIngressExample of
      Inr (Some result) \<Rightarrow>
        map (\<lambda>rule. (Host rule, map (\<lambda>p. ServiceName (Backend p)) (Paths rule))) (Rules result)
          = [(''example.org'', [''foo-v1'', ''foo-v2''])]
    | _ \<Rightarrow> False) \<and>
   ssc_GenerateIngress exampleExternals idleIngressExample = Inl errNoPaths"
proof -
  have ing: "Ingress (ss_Spec (StackSet sharedIngressExample)) = Some exampleIngressSpec"
    by (simp add: sharedIngressExample_def)
  have ing': "Ingress (ss_Spec (StackSet idleIngressExample)) = Some exampleIngressSpec"
    by (simp add: idleIngressExample_def)
  have serving: "filter (\<lambda>sc. positive (actualTrafficWeight sc)) (StackContainers sharedIngressExample)
      = [(exampleStack ''foo-v2'' 2)
           \<lparr>ingressSpec := Some exampleIngressSpec, actualTrafficWeight := Finite 30\<rparr>,
         (exampleStack ''foo-v1'' 1)
           \<lparr>ingressSpec := Some exampleIngressSpec, actualTrafficWeight := Finite 70,
            desiredTrafficWeight := Finite 100\<rparr>]"
    by (simp add: sharedIngressExample_def)
  note t = ssc_GenerateIngress_shared [OF ing, where ext = exampleExternals]
  have some: "\<exists>sc \<in> set (StackContainers sharedIngressExample). positive (actualTrafficWeight sc)"
    by (simp add: sharedIngressExample_def)
  have marshal: "\<exists>s. jsonMarshal exampleExternals weights = Inr s" for weights
    by (simp add: exampleExternals_def)
  from t some
  have "case jsonMarshal exampleExternals
             (positiveWeights actualTrafficWeight (StackContainers sharedIngressExample)) of
           Inl err \<Rightarrow> ssc_GenerateIngress exampleExternals sharedIngressExample = Inl (errExternal err)
         | Inr a \<Rightarrow>
             (case jsonMarshal exampleExternals
                (positiveWeights desiredTrafficWeight (StackContainers sharedIngressExample)) of
                Inl err \<Rightarrow> ssc_GenerateIngress exampleExternals sharedIngressExample = Inl (errExternal err)
              | Inr d \<Rightarrow> (\<exists>result. ssc_GenerateIngress exampleExternals sharedIngressExample
                  = Inr (Some result)))"
    by blast
  with marshal [of "positiveWeights actualTrafficWeight (StackContainers sharedIngressExample)"]
    marshal [of "positiveWeights desiredTrafficWeight (StackContainers sharedIngressExample)"]
  have "\<exists>result. ssc_GenerateIngress exampleExternals sharedIngressExample = Inr (Some result)"
    by auto
  then obtain result where
    r: "ssc_GenerateIngress exampleExternals sharedIngressExample = Inr (Some result)" ..
  from t r have hosts: "map Host (Rules result) = [''example.org'']"
    by (simp add: exampleIngressSpec_def)
  then obtain rule where rules: "Rules result = [rule]" and host: "Host rule = ''example.org''"
    by auto
  from t r rules have "map (\<lambda>p. ServiceName (Backend p)) (Paths rule) = [''foo-v1'', ''foo-v2'']"
    by (simp add: serving)
  with rules host r have a: "(case ssc_GenerateIngress exampleExternals sharedIngressExample of
      Inr (Some result) \<Rightarrow>
        map (\<lambda>rule. (Host rule, map (\<lambda>p. ServiceName (Backend p)) (Paths rule))) (Rules result)
          = [(''example.org'', [''foo-v1'', ''foo-v2''])]
    | _ \<Rightarrow> False)"
    by simp
  have b: "ssc_GenerateIngress exampleExternals idleIngressExample = Inl errNoPaths"
    using ssc_GenerateIngress_shared [OF ing', where ext = exampleExternals] by (simp add: idleIngressExample_def)
  from a b show ?thesis by simp
qed

end
